theory Spec2Isabelle
  imports Main "HOL-Library.Word"
begin

unbundle bit_operations_syntax

section \<open>The DHCP client of aipstack (IpDhcpClient)\<close>

text \<open>
  A shallow embedding of the class \<open>IpDhcpClient\<close>: its data, its fix-up of received
  ACKs, its timers and its state machine. Every member function is a HOL function of
  the same name over a record of the member variables. What the client does to its
  collaborators (the timer, the ARP observer, the interface, the UDP layer, the user's
  callback) is written into the same record: the timer and the two subscriptions as
  fields, everything sent or configured as a list of effects in the order of the calls.
\<close>

subsection \<open>Machine types\<close>

type_synonym u8 = "8 word"
type_synonym u32 = "32 word"
type_synonym u64 = "64 word"

text \<open>\<open>Ip4Addr\<close> holds the address as a 32-bit number, first octet most significant.\<close>

type_synonym Ip4Addr = "32 word"

type_synonym MacAddr = "48 word"

text \<open>\<open>MemRef\<close>: a pointer and a length; the model keeps the bytes.\<close>

type_synonym MemRef = "u8 list"

subsection \<open>Ip4Addr\<close>

text \<open>
  Modelled from the spec: the class \<open>Ip4Addr\<close> (aipstack/ip/IpAddr.h) is not among the
  source files. The spec reads \<open>Ip4Addr(a, b, c, d)\<close> as the dotted address a.b.c.d,
  compares addresses as numbers (\<open><128\<close>, \<open><192\<close>, \<open><224\<close>), takes a prefix mask to be
  "k ones followed by zeros" and the local broadcast address to be the one "derived from
  the mask": the network bits of the address and ones in the host bits.
\<close>

definition Ip4Addr_of :: "u8 \<Rightarrow> u8 \<Rightarrow> u8 \<Rightarrow> u8 \<Rightarrow> Ip4Addr" where
  "Ip4Addr_of a b c d = ucast a * 16777216 + ucast b * 65536 + ucast c * 256 + ucast d"

definition ZeroAddr :: Ip4Addr where
  "ZeroAddr = 0"

definition AllOnesAddr :: Ip4Addr where
  "AllOnesAddr = - 1"

definition isZero :: "Ip4Addr \<Rightarrow> bool" where
  "isZero a \<longleftrightarrow> a = ZeroAddr"

definition isAllOnes :: "Ip4Addr \<Rightarrow> bool" where
  "isAllOnes a \<longleftrightarrow> a = AllOnesAddr"

definition PrefixMask :: "nat \<Rightarrow> Ip4Addr" where
  "PrefixMask k = NOT (mask (32 - k))"

fun leading_ones_from :: "Ip4Addr \<Rightarrow> nat \<Rightarrow> nat" where
  "leading_ones_from a 0 = 0"
| "leading_ones_from a (Suc i) = (if bit a i then Suc (leading_ones_from a i) else 0)"

definition countLeadingOnes :: "Ip4Addr \<Rightarrow> nat" where
  "countLeadingOnes a = leading_ones_from a 32"

definition Join :: "Ip4Addr \<Rightarrow> Ip4Addr \<Rightarrow> Ip4Addr \<Rightarrow> Ip4Addr" where
  "Join msk first second = (first AND msk) OR (second AND NOT msk)"

subsection \<open>Static configuration\<close>

text \<open>
  The template parameters \<open>Params\<close> (the options of \<open>IpDhcpClientOptions\<close>, all
  \<open>std::uint8_t\<close>), the two constants the class takes from the platform, whose header is
  not among the source files (\<open>Platform::TimeFreq\<close> converted to \<open>TimeType\<close>, and
  \<open>Platform::WorkingTimeSpanTicks\<close>), and what the interface answers when asked for its
  MAC address and MTU. \<open>TimeType\<close> is an unsigned integer type of the platform: the
  functions below take it to be a word of any width, \<open>'t word\<close>.
\<close>

record 'time Params =
  MaxDnsServers :: u8
  MaxClientIdSize :: u8
  MaxVendorClassIdSize :: u8
  XidReuseMax :: u8
  MaxRequests :: u8
  MaxRebootRequests :: u8
  BaseRtxTimeoutSeconds :: u8
  MaxRtxTimeoutSeconds :: u8
  ResetTimeoutSeconds :: u8
  MinRenewRtxTimeoutSeconds :: u8
  ArpResponseTimeoutSeconds :: u8
  NumArpQueries :: u8
  TimeFreq :: 'time
  WorkingTimeSpanTicks :: 'time
  iface_MacAddr :: MacAddr
  iface_Mtu :: nat

text \<open>\<open>MaxTimerSeconds = MinValueU(TypeMax<uint32_t>, WorkingTimeSpanTicks / TimeFreq)\<close>.\<close>

definition MaxTimerSeconds :: "('t :: len) word Params \<Rightarrow> u32" where
  "MaxTimerSeconds P =
     of_nat (min 4294967295 (unat (WorkingTimeSpanTicks P div TimeFreq P)))"

text \<open>The \<open>static_assert\<close>s of the class: a configuration that compiles satisfies them.\<close>

definition static_asserts :: "('t :: len) word Params \<Rightarrow> bool" where
  "static_asserts P \<longleftrightarrow>
     0 < MaxDnsServers P \<and> MaxDnsServers P < 32 \<and>
     1 \<le> XidReuseMax P \<and> XidReuseMax P \<le> 5 \<and>
     1 \<le> MaxRequests P \<and> MaxRequests P \<le> 5 \<and>
     1 \<le> MaxRebootRequests P \<and> MaxRebootRequests P \<le> 5 \<and>
     1 \<le> BaseRtxTimeoutSeconds P \<and> BaseRtxTimeoutSeconds P \<le> 4 \<and>
     BaseRtxTimeoutSeconds P \<le> MaxRtxTimeoutSeconds P \<and> MaxRtxTimeoutSeconds P \<le> 255 \<and>
     1 \<le> ResetTimeoutSeconds P \<and> ResetTimeoutSeconds P \<le> 128 \<and>
     10 \<le> MinRenewRtxTimeoutSeconds P \<and> MinRenewRtxTimeoutSeconds P \<le> 255 \<and>
     1 \<le> ArpResponseTimeoutSeconds P \<and> ArpResponseTimeoutSeconds P \<le> 5 \<and>
     1 \<le> NumArpQueries P \<and> NumArpQueries P \<le> 10 \<and>
     255 \<le> MaxTimerSeconds P"

definition DefaultRenewTimeForLeaseTime :: "u32 \<Rightarrow> u32" where
  "DefaultRenewTimeForLeaseTime lease_time_s = lease_time_s div 2"

text \<open>The product is taken in 64 bits and the quotient converted back to 32.\<close>

definition DefaultRebindingTimeForLeaseTime :: "u32 \<Rightarrow> u32" where
  "DefaultRebindingTimeForLeaseTime lease_time_s =
     ucast ((ucast lease_time_s :: u64) * 7 div 8)"

subsection \<open>DHCP options\<close>

datatype DhcpMessageType =
  Discover | Offer | Request | Decline | Ack | Nak | Release | Inform

text \<open>
  \<open>DhcpRecvOptions\<close>, as \<open>Options::parseOptions\<close> fills it. The class is declared in
  aipstack/ip/IpDhcpOptions.h, which is not among the source files: the fields are the
  ones the client reads. A field \<open>recv_have_x\<close> is the source's \<open>opts.have.x\<close>, a field
  \<open>recv_x\<close> its \<open>opts.x\<close>; \<open>have.dns_servers\<close> is a count.
\<close>

record DhcpRecvOptions =
  recv_have_dhcp_message_type :: bool
  recv_have_dhcp_server_identifier :: bool
  recv_have_ip_address_lease_time :: bool
  recv_have_renewal_time :: bool
  recv_have_rebinding_time :: bool
  recv_have_subnet_mask :: bool
  recv_have_router :: bool
  recv_have_dns_servers :: u8
  recv_dhcp_message_type :: DhcpMessageType
  recv_dhcp_server_identifier :: u32
  recv_ip_address_lease_time :: u32
  recv_renewal_time :: u32
  recv_rebinding_time :: u32
  recv_subnet_mask :: Ip4Addr
  recv_router :: Ip4Addr
  recv_dns_servers :: "Ip4Addr list"

text \<open>\<open>DhcpSendOptions\<close>; a default-constructed one has nothing.\<close>

record DhcpSendOptions =
  send_have_dhcp_server_identifier :: bool
  send_have_requested_ip_address :: bool
  send_have_message :: bool
  send_have_client_identifier :: bool
  send_have_vendor_class_identifier :: bool
  send_have_max_dhcp_message_size :: bool
  send_have_parameter_request_list :: bool
  send_dhcp_server_identifier :: u32
  send_requested_ip_address :: Ip4Addr
  send_message :: string
  send_client_identifier :: MemRef
  send_vendor_class_identifier :: MemRef

definition DhcpSendOptions_default :: DhcpSendOptions where
  "DhcpSendOptions_default = \<lparr>
     send_have_dhcp_server_identifier = False,
     send_have_requested_ip_address = False,
     send_have_message = False,
     send_have_client_identifier = False,
     send_have_vendor_class_identifier = False,
     send_have_max_dhcp_message_size = False,
     send_have_parameter_request_list = False,
     send_dhcp_server_identifier = 0,
     send_requested_ip_address = 0,
     send_message = [],
     send_client_identifier = [],
     send_vendor_class_identifier = [] \<rparr>"

definition DeclineMessageArpResponse :: string where
  "DeclineMessageArpResponse = ''ArpResponse''"

subsection \<open>Checking an offer and an ACK\<close>

definition checkOffer :: "Ip4Addr \<Rightarrow> bool" where
  "checkOffer addr =
     (if isZero addr \<or> isAllOnes addr then False
      else if addr AND PrefixMask 8 = Ip4Addr_of 127 0 0 0 then False
      else if addr AND PrefixMask 4 = Ip4Addr_of 224 0 0 0 then False
      else True)"

text \<open>
  \<open>checkAndFixupAck\<close> takes the options by reference and returns a bool: the model
  returns both, the options as the function leaves them (also when it returns false).
  Its blocks are functions of their own, in the order of the source:
  the choice of a subnet mask by address class when the ACK has none (\<open>None\<close> where
  the source returns false), the removal of a router outside the subnet, the default
  and the cap of the renewal time, the default and the clamp of the rebinding time.
\<close>

definition ack_default_subnet_mask :: "Ip4Addr \<Rightarrow> DhcpRecvOptions \<Rightarrow> DhcpRecvOptions option" where
  "ack_default_subnet_mask addr opts =
     (if \<not> recv_have_subnet_mask opts then
        (if addr < Ip4Addr_of 128 0 0 0
           then Some (opts\<lparr>recv_subnet_mask := Ip4Addr_of 255 0 0 0\<rparr>)
         else if addr < Ip4Addr_of 192 0 0 0
           then Some (opts\<lparr>recv_subnet_mask := Ip4Addr_of 255 255 0 0\<rparr>)
         else if addr < Ip4Addr_of 224 0 0 0
           then Some (opts\<lparr>recv_subnet_mask := Ip4Addr_of 255 255 255 0\<rparr>)
         else None)
      else Some opts)"

definition ack_ignore_bad_router :: "Ip4Addr \<Rightarrow> DhcpRecvOptions \<Rightarrow> DhcpRecvOptions" where
  "ack_ignore_bad_router addr opts =
     (if recv_have_router opts then
        (if recv_router opts AND recv_subnet_mask opts \<noteq> addr AND recv_subnet_mask opts
           then opts\<lparr>recv_have_router := False\<rparr>
         else opts)
      else opts)"

definition ack_fixup_renewal_time :: "DhcpRecvOptions \<Rightarrow> DhcpRecvOptions" where
  "ack_fixup_renewal_time opts =
     (let opts' =
            (if \<not> recv_have_renewal_time opts
               then opts\<lparr>recv_renewal_time :=
                      DefaultRenewTimeForLeaseTime (recv_ip_address_lease_time opts)\<rparr>
             else opts)
      in opts'\<lparr>recv_renewal_time :=
           min (recv_ip_address_lease_time opts') (recv_renewal_time opts')\<rparr>)"

definition ack_fixup_rebinding_time :: "DhcpRecvOptions \<Rightarrow> DhcpRecvOptions" where
  "ack_fixup_rebinding_time opts =
     (let opts' =
            (if \<not> recv_have_rebinding_time opts
               then opts\<lparr>recv_rebinding_time :=
                      DefaultRebindingTimeForLeaseTime (recv_ip_address_lease_time opts)\<rparr>
             else opts)
      in opts'\<lparr>recv_rebinding_time :=
           max (recv_renewal_time opts')
             (min (recv_ip_address_lease_time opts') (recv_rebinding_time opts'))\<rparr>)"

definition checkAndFixupAck :: "Ip4Addr \<Rightarrow> DhcpRecvOptions \<Rightarrow> bool \<times> DhcpRecvOptions" where
  "checkAndFixupAck addr opts =
     (if \<not> checkOffer addr then (False, opts)
      else if \<not> recv_have_ip_address_lease_time opts then (False, opts)
      else
        case ack_default_subnet_mask addr opts of
          None \<Rightarrow> (False, opts)
        | Some opts1 \<Rightarrow>
            if recv_subnet_mask opts1 \<noteq> PrefixMask (countLeadingOnes (recv_subnet_mask opts1))
              then (False, opts1)
            else if addr = Join (recv_subnet_mask opts1) addr AllOnesAddr
              then (False, opts1)
            else
              (True, ack_fixup_rebinding_time
                       (ack_fixup_renewal_time (ack_ignore_bad_router addr opts1))))"

subsection \<open>The client's data\<close>

datatype DhcpState =
  LinkDown | Resetting | Rebooting | Selecting | Requesting | Checking
  | Bound | Renewing | Rebinding

text \<open>
  \<open>IpDhcpClientEvent\<close>. Its fourth value is called \<open>LinkDown\<close> in the source, as the
  first state is; the model calls the event \<open>Event_LinkDown\<close>.
\<close>

datatype IpDhcpClientEvent =
  LeaseObtained | LeaseRenewed | LeaseLost | Event_LinkDown

record LeaseInfo =
  ip_address :: Ip4Addr
  dhcp_server_identifier :: u32
  dhcp_server_addr :: Ip4Addr
  lease_time_s :: u32
  renewal_time_s :: u32
  rebinding_time_s :: u32
  subnet_mask :: Ip4Addr
  server_mac :: MacAddr
  have_router :: bool
  domain_name_servers_count :: u8
  router :: Ip4Addr
  domain_name_servers :: "Ip4Addr list"

text \<open>
  Modelled from the spec: the protocol constants of aipstack/proto/DhcpProto.h, which is
  not among the source files. The spec gives the magic cookie (\<open>0x63 82 53 63\<close>), the
  hardware type and length the client sends (\<open>htype=1\<close>, \<open>hlen=6\<close>), the size of the
  header (a 236-byte fixed region and the 4-byte magic) and the server's port (67); op
  is BootRequest (1) or BootReply (2) as in RFC 2131, which the spec refers to.
\<close>

definition BootRequest :: u8 where "BootRequest = 1"
definition BootReply :: u8 where "BootReply = 2"
definition DhcpHwAddrType_Ethernet :: u8 where "DhcpHwAddrType_Ethernet = 1"
definition MacAddr_Size :: u8 where "MacAddr_Size = 6"
definition DhcpMagic :: u32 where "DhcpMagic = 0x63825363"
definition DhcpHeaderSize :: nat where "DhcpHeaderSize = 240"
definition DhcpServerPort :: nat where "DhcpServerPort = 67"
definition DhcpClientPort :: nat where "DhcpClientPort = 68"

text \<open>
  A received DHCP message, as \<open>processReceivedDhcpMessage\<close> looks at it: the length of
  the buffer, whether its first header part is contiguous (\<open>msg.hasHeader\<close>), the
  header fields the function reads, and what \<open>Options::parseOptions\<close> (not among the
  source files) makes of the option area: \<open>None\<close> where it returns false.
\<close>

record DhcpMessage =
  msg_tot_len :: nat
  msg_hasHeader :: bool
  msg_DhcpOp :: u8
  msg_DhcpHtype :: u8
  msg_DhcpHlen :: u8
  msg_DhcpXid :: u32
  msg_DhcpYiaddr :: Ip4Addr
  msg_DhcpChaddr :: MacAddr
  msg_DhcpMagic :: u32
  msg_parseOptions :: "DhcpRecvOptions option"

text \<open>A DHCP message as \<open>send_dhcp_message\<close> hands it to \<open>sendUdpIp4Packet\<close>.\<close>

record DhcpSentMessage =
  sent_DhcpOp :: u8
  sent_DhcpHtype :: u8
  sent_DhcpHlen :: u8
  sent_DhcpXid :: u32
  sent_DhcpCiaddr :: Ip4Addr
  sent_DhcpChaddr :: MacAddr
  sent_DhcpMagic :: u32
  sent_msg_type :: DhcpMessageType
  sent_opts :: DhcpSendOptions
  sent_mtu :: nat
  sent_src_addr :: Ip4Addr
  sent_dst_addr :: Ip4Addr
  sent_src_port :: nat
  sent_dst_port :: nat
  sent_AllowNonLocalSrc :: bool

text \<open>What the client does to the world outside, in the order of the calls.\<close>

datatype effect =
    SendUdpIp4Packet DhcpSentMessage
  | SendArpQuery Ip4Addr
  | SetIp4Addr "(u8 \<times> Ip4Addr) option"
  | SetIp4Gateway "Ip4Addr option"
  | Handler IpDhcpClientEvent

text \<open>
  The member variables. \<open>m_timer\<close> is the platform's one-shot timer, whose class is not
  among the source files.
  Modelled from the spec: the timer "exposes \<open>set_after\<close>, \<open>set_at\<close>, \<open>unset\<close>,
  \<open>set_time\<close> and \<open>now\<close>"; it is held as whether it is armed (\<open>m_timer_set\<close>) and
  the time it was last set to expire at (\<open>m_timer_time\<close>, the source's \<open>getSetTime\<close>).
  \<open>m_arp_observer\<close> is whether the ARP observer is subscribed, \<open>m_handler\<close> whether a
  callback was given. \<open>effects\<close> lists what was done to the outside world so far, and
  \<open>assert_failed\<close> tells whether an \<open>AIPSTACK_ASSERT\<close> found its condition false.
\<close>

record 'time IpDhcpClient =
  m_timer_set :: bool
  m_timer_time :: 'time
  m_arp_observer :: bool
  m_handler :: bool
  m_client_id :: MemRef
  m_vendor_class_id :: MemRef
  m_xid :: u32
  m_rtx_timeout :: u8
  m_state :: DhcpState
  m_request_count :: u8
  m_lease_time_passed :: u32
  m_request_send_time :: 'time
  m_request_send_time_passed :: u32
  m_info :: LeaseInfo
  effects :: "effect list"
  assert_failed :: bool

definition AIPSTACK_ASSERT :: "bool \<Rightarrow> 'time IpDhcpClient \<Rightarrow> 'time IpDhcpClient" where
  "AIPSTACK_ASSERT c st = st\<lparr>assert_failed := assert_failed st \<or> \<not> c\<rparr>"

definition emit :: "effect list \<Rightarrow> 'time IpDhcpClient \<Rightarrow> 'time IpDhcpClient" where
  "emit es st = st\<lparr>effects := effects st @ es\<rparr>"

definition timer_setAfter ::
  "('t :: len) word \<Rightarrow> 't word \<Rightarrow> 't word IpDhcpClient \<Rightarrow> 't word IpDhcpClient" where
  "timer_setAfter now rel_time st = st\<lparr>m_timer_set := True, m_timer_time := now + rel_time\<rparr>"

definition timer_setAt :: "'time \<Rightarrow> 'time IpDhcpClient \<Rightarrow> 'time IpDhcpClient" where
  "timer_setAt abs_time st = st\<lparr>m_timer_set := True, m_timer_time := abs_time\<rparr>"

definition timer_unset :: "'time IpDhcpClient \<Rightarrow> 'time IpDhcpClient" where
  "timer_unset st = st\<lparr>m_timer_set := False\<rparr>"

definition arp_observer_observe :: "'time IpDhcpClient \<Rightarrow> 'time IpDhcpClient" where
  "arp_observer_observe st = st\<lparr>m_arp_observer := True\<rparr>"

definition arp_observer_reset :: "'time IpDhcpClient \<Rightarrow> 'time IpDhcpClient" where
  "arp_observer_reset st = st\<lparr>m_arp_observer := False\<rparr>"

definition hasLease :: "'time IpDhcpClient \<Rightarrow> bool" where
  "hasLease st \<longleftrightarrow> m_state st = Bound \<or> m_state st = Renewing \<or> m_state st = Rebinding"

subsection \<open>Seconds and ticks\<close>

definition SecToTicksNoAssert :: "('t :: len) word Params \<Rightarrow> u32 \<Rightarrow> 't word" where
  "SecToTicksNoAssert P seconds = ucast seconds * TimeFreq P"

text \<open>
  \<open>SecToTicks\<close> asserts \<open>seconds <= MaxTimerSeconds\<close> first. It is a static function:
  where it is called, the model records the assertion in the client (\<open>SecToTicks_assert\<close>).
\<close>

definition SecToTicks :: "('t :: len) word Params \<Rightarrow> u32 \<Rightarrow> 't word" where
  "SecToTicks P seconds = SecToTicksNoAssert P seconds"

definition SecToTicks_assert ::
  "('t :: len) word Params \<Rightarrow> u32 \<Rightarrow> 't word IpDhcpClient \<Rightarrow> 't word IpDhcpClient" where
  "SecToTicks_assert P seconds st = AIPSTACK_ASSERT (seconds \<le> MaxTimerSeconds P) st"

definition TicksToSec :: "('t :: len) word Params \<Rightarrow> 't word \<Rightarrow> u32" where
  "TicksToSec P ticks = of_nat (min (unat (ticks div TimeFreq P)) 4294967295)"

definition getTimSetTime :: "'time IpDhcpClient \<Rightarrow> 'time" where
  "getTimSetTime st = m_timer_time st"

subsection \<open>Retransmission timeout and transaction identifier\<close>

definition reset_rtx_timeout :: "'time Params \<Rightarrow> 'time IpDhcpClient \<Rightarrow> 'time IpDhcpClient" where
  "reset_rtx_timeout P st = st\<lparr>m_rtx_timeout := BaseRtxTimeoutSeconds P\<rparr>"

definition double_rtx_timeout :: "'time Params \<Rightarrow> 'time IpDhcpClient \<Rightarrow> 'time IpDhcpClient" where
  "double_rtx_timeout P st =
     st\<lparr>m_rtx_timeout :=
          (if m_rtx_timeout st > MaxRtxTimeoutSeconds P div 2
             then MaxRtxTimeoutSeconds P else 2 * m_rtx_timeout st)\<rparr>"

definition set_timer_for_rtx ::
  "('t :: len) word Params \<Rightarrow> 't word \<Rightarrow> 't word IpDhcpClient \<Rightarrow> 't word IpDhcpClient" where
  "set_timer_for_rtx P now st =
     timer_setAfter now (SecToTicks P (ucast (m_rtx_timeout st)))
       (SecToTicks_assert P (ucast (m_rtx_timeout st)) st)"

text \<open>\<open>m_xid = std::uint32_t(platform().getTime())\<close>: the low 32 bits of the clock.\<close>

definition new_xid :: "('t :: len) word \<Rightarrow> 't word IpDhcpClient \<Rightarrow> 't word IpDhcpClient" where
  "new_xid now st = st\<lparr>m_xid := ucast now\<rparr>"

subsection \<open>Sending\<close>

text \<open>
  \<open>send_dhcp_message\<close> completes the options, writes the header and gives the datagram
  to \<open>sendUdpIp4Packet\<close>. The registration for a send-retry, which it resets first, is
  kept by the IP layer and is not part of the model, nor is the encoding of the options
  into bytes (\<open>Options::writeOptions\<close>, not among the source files) and the assertion
  on the length it returns.
\<close>

definition send_dhcp_message ::
  "'time Params \<Rightarrow> DhcpMessageType \<Rightarrow> DhcpSendOptions \<Rightarrow> Ip4Addr \<Rightarrow> Ip4Addr \<Rightarrow>
     'time IpDhcpClient \<Rightarrow> 'time IpDhcpClient" where
  "send_dhcp_message P msg_type opts ciaddr dst_addr st =
     (let opts1 =
            (if length (m_client_id st) > 0
               then opts\<lparr>send_have_client_identifier := True,
                         send_client_identifier := m_client_id st\<rparr>
             else opts);
          opts2 =
            (if length (m_vendor_class_id st) > 0 \<and> msg_type \<noteq> Decline
               then opts1\<lparr>send_have_vendor_class_identifier := True,
                          send_vendor_class_identifier := m_vendor_class_id st\<rparr>
             else opts1);
          opts3 =
            (if msg_type \<noteq> Decline
               then opts2\<lparr>send_have_max_dhcp_message_size := True,
                          send_have_parameter_request_list := True\<rparr>
             else opts2)
      in emit [SendUdpIp4Packet \<lparr>
           sent_DhcpOp = BootRequest,
           sent_DhcpHtype = DhcpHwAddrType_Ethernet,
           sent_DhcpHlen = MacAddr_Size,
           sent_DhcpXid = m_xid st,
           sent_DhcpCiaddr = ciaddr,
           sent_DhcpChaddr = iface_MacAddr P,
           sent_DhcpMagic = DhcpMagic,
           sent_msg_type = msg_type,
           sent_opts = opts3,
           sent_mtu = iface_Mtu P,
           sent_src_addr = ciaddr,
           sent_dst_addr = dst_addr,
           sent_src_port = DhcpClientPort,
           sent_dst_port = DhcpServerPort,
           sent_AllowNonLocalSrc = isZero ciaddr \<rparr>] st)"

definition send_discover :: "'time Params \<Rightarrow> 'time IpDhcpClient \<Rightarrow> 'time IpDhcpClient" where
  "send_discover P st =
     send_dhcp_message P Discover DhcpSendOptions_default ZeroAddr AllOnesAddr
       (AIPSTACK_ASSERT (m_state st = Selecting) st)"

definition send_request :: "'time Params \<Rightarrow> 'time IpDhcpClient \<Rightarrow> 'time IpDhcpClient" where
  "send_request P st =
     (let send_opts1 =
            (if m_state st = Requesting
               then DhcpSendOptions_default\<lparr>
                      send_have_dhcp_server_identifier := True,
                      send_dhcp_server_identifier := dhcp_server_identifier (m_info st)\<rparr>
             else DhcpSendOptions_default);
          dst_addr =
            (if m_state st = Renewing then dhcp_server_addr (m_info st) else AllOnesAddr);
          send_opts2 =
            (if m_state st = Requesting \<or> m_state st = Rebooting
               then send_opts1\<lparr>send_have_requested_ip_address := True,
                               send_requested_ip_address := ip_address (m_info st)\<rparr>
             else send_opts1);
          ciaddr =
            (if m_state st = Requesting \<or> m_state st = Rebooting
               then ZeroAddr else ip_address (m_info st))
      in send_dhcp_message P Request send_opts2 ciaddr dst_addr
           (AIPSTACK_ASSERT (m_state st = Requesting \<or> m_state st = Renewing \<or>
                             m_state st = Rebinding \<or> m_state st = Rebooting) st))"

definition send_decline :: "'time Params \<Rightarrow> 'time IpDhcpClient \<Rightarrow> 'time IpDhcpClient" where
  "send_decline P st =
     send_dhcp_message P Decline
       (DhcpSendOptions_default\<lparr>
          send_have_dhcp_server_identifier := True,
          send_dhcp_server_identifier := dhcp_server_identifier (m_info st),
          send_have_requested_ip_address := True,
          send_requested_ip_address := ip_address (m_info st),
          send_have_message := True,
          send_message := DeclineMessageArpResponse\<rparr>)
       ZeroAddr AllOnesAddr
       (AIPSTACK_ASSERT (m_state st = Checking) st)"

text \<open>\<open>ethHw()->sendArpQuery\<close>.\<close>

definition sendArpQuery :: "Ip4Addr \<Rightarrow> 'time IpDhcpClient \<Rightarrow> 'time IpDhcpClient" where
  "sendArpQuery ip_addr st = emit [SendArpQuery ip_addr] st"

subsection \<open>Configuring the interface\<close>

definition handle_dhcp_up :: "bool \<Rightarrow> 'time IpDhcpClient \<Rightarrow> 'time IpDhcpClient" where
  "handle_dhcp_up renewed st =
     emit
       ([SetIp4Addr (Some (of_nat (countLeadingOnes (subnet_mask (m_info st))),
                           ip_address (m_info st))),
         SetIp4Gateway (if have_router (m_info st) then Some (router (m_info st)) else None)]
        @ (if m_handler st
             then [Handler (if renewed then LeaseRenewed else LeaseObtained)] else []))
       st"

definition handle_dhcp_down :: "bool \<Rightarrow> bool \<Rightarrow> 'time IpDhcpClient \<Rightarrow> 'time IpDhcpClient" where
  "handle_dhcp_down call_callback link_down st =
     emit
       ([SetIp4Gateway None, SetIp4Addr None]
        @ (if call_callback \<and> m_handler st
             then [Handler (if link_down then Event_LinkDown else LeaseLost)] else []))
       st"

subsection \<open>Discovery\<close>

definition start_discovery_or_rebooting ::
  "('t :: len) word Params \<Rightarrow> 't word \<Rightarrow> 't word IpDhcpClient \<Rightarrow> 't word IpDhcpClient" where
  "start_discovery_or_rebooting P now st =
     set_timer_for_rtx P now (reset_rtx_timeout P
       (if isZero (ip_address (m_info st))
          then send_discover P ((new_xid now st)\<lparr>m_request_count := 1, m_state := Selecting\<rparr>)
        else send_request P
               ((new_xid now st)\<lparr>m_request_count := 1, m_state := Rebooting,
                                 m_request_send_time := now\<rparr>)))"

definition start_discovery ::
  "('t :: len) word Params \<Rightarrow> 't word \<Rightarrow> 't word IpDhcpClient \<Rightarrow> 't word IpDhcpClient" where
  "start_discovery P now st =
     start_discovery_or_rebooting P now (st\<lparr>m_info := (m_info st)\<lparr>ip_address := ZeroAddr\<rparr>\<rparr>)"

definition handle_expired_lease ::
  "('t :: len) word Params \<Rightarrow> 't word \<Rightarrow> bool \<Rightarrow> 't word IpDhcpClient \<Rightarrow> 't word IpDhcpClient" where
  "handle_expired_lease P now had_lease st =
     (if had_lease then handle_dhcp_down True False (start_discovery P now st)
      else start_discovery P now st)"

subsection \<open>Entering RESETTING, CHECKING and BOUND\<close>

definition go_resetting ::
  "('t :: len) word Params \<Rightarrow> 't word \<Rightarrow> bool \<Rightarrow> 't word IpDhcpClient \<Rightarrow> 't word IpDhcpClient" where
  "go_resetting P now discover_immediately st =
     (let st1 =
            (if discover_immediately then start_discovery P now st
             else timer_setAfter now (SecToTicks P (ucast (ResetTimeoutSeconds P)))
                    (SecToTicks_assert P (ucast (ResetTimeoutSeconds P))
                       (st\<lparr>m_state := Resetting\<rparr>)))
      in if hasLease st then handle_dhcp_down True False st1 else st1)"

definition go_checking ::
  "('t :: len) word Params \<Rightarrow> 't word \<Rightarrow> 't word IpDhcpClient \<Rightarrow> 't word IpDhcpClient" where
  "go_checking P now st =
     sendArpQuery (ip_address (m_info st))
       (timer_setAfter now (SecToTicks P (ucast (ArpResponseTimeoutSeconds P)))
          (SecToTicks_assert P (ucast (ArpResponseTimeoutSeconds P))
             (arp_observer_observe (st\<lparr>m_state := Checking, m_request_count := 1\<rparr>))))"

text \<open>
  \<open>go_bound\<close>, after the lease was found not to have expired: the state, the timer
  for the renewal time and the configuration of the interface.
\<close>

definition go_bound_set_timer ::
  "('t :: len) word Params \<Rightarrow> bool \<Rightarrow> 't word IpDhcpClient \<Rightarrow> 't word IpDhcpClient" where
  "go_bound_set_timer P had_lease st =
     (let timer_rel_sec =
            min (if m_lease_time_passed st \<le> renewal_time_s (m_info st)
                   then renewal_time_s (m_info st) - m_lease_time_passed st else 0)
                (MaxTimerSeconds P);
          lease_time_passed = m_lease_time_passed st + timer_rel_sec
      in handle_dhcp_up had_lease
           (timer_setAt (m_request_send_time st + SecToTicksNoAssert P lease_time_passed)
              (st\<lparr>m_state := Bound, m_lease_time_passed := lease_time_passed\<rparr>)))"

definition go_bound ::
  "('t :: len) word Params \<Rightarrow> 't word \<Rightarrow> 't word IpDhcpClient \<Rightarrow> 't word IpDhcpClient" where
  "go_bound P now st =
     (let had_lease = hasLease st;
          st1 = (AIPSTACK_ASSERT (m_state st = Checking \<or> m_state st = Renewing \<or>
                                  m_state st = Rebinding \<or> m_state st = Rebooting) st)
                \<lparr>m_lease_time_passed := TicksToSec P (now - m_request_send_time st)\<rparr>
      in if m_lease_time_passed st1 \<ge> lease_time_s (m_info st1)
           then handle_expired_lease P now had_lease st1
         else go_bound_set_timer P had_lease st1)"

subsection \<open>The timer handlers\<close>

definition handleTimerResetting ::
  "('t :: len) word Params \<Rightarrow> 't word \<Rightarrow> 't word IpDhcpClient \<Rightarrow> 't word IpDhcpClient" where
  "handleTimerResetting P now st = start_discovery P now st"

definition handleTimerSelecting ::
  "('t :: len) word Params \<Rightarrow> 't word \<Rightarrow> 't word IpDhcpClient \<Rightarrow> 't word IpDhcpClient" where
  "handleTimerSelecting P now st =
     set_timer_for_rtx P now (double_rtx_timeout P (send_discover P
       (if m_request_count st \<ge> XidReuseMax P
          then new_xid now (st\<lparr>m_request_count := 1\<rparr>)
        else st\<lparr>m_request_count := m_request_count st + 1\<rparr>)))"

definition handleTimerRebootingRequesting ::
  "('t :: len) word Params \<Rightarrow> 't word \<Rightarrow> 't word IpDhcpClient \<Rightarrow> 't word IpDhcpClient" where
  "handleTimerRebootingRequesting P now st =
     (let limit = (if m_state st = Rebooting then MaxRebootRequests P else MaxRequests P)
      in if m_request_count st \<ge> limit then start_discovery P now st
         else set_timer_for_rtx P now (double_rtx_timeout P (send_request P
                (st\<lparr>m_request_count := m_request_count st + 1\<rparr>))))"

definition handleTimerChecking ::
  "('t :: len) word Params \<Rightarrow> 't word \<Rightarrow> 't word IpDhcpClient \<Rightarrow> 't word IpDhcpClient" where
  "handleTimerChecking P now st =
     (if m_request_count st < NumArpQueries P then
        sendArpQuery (ip_address (m_info st))
          (timer_setAfter now (SecToTicks P (ucast (ArpResponseTimeoutSeconds P)))
             (SecToTicks_assert P (ucast (ArpResponseTimeoutSeconds P))
                (st\<lparr>m_request_count := m_request_count st + 1\<rparr>)))
      else go_bound P now (arp_observer_reset st))"

text \<open>
  \<open>handleTimerBoundRenewingRebinding\<close> in its steps. After the test for an expired
  lease and the update of \<open>m_lease_time_passed\<close>: the change of state when the
  rebinding or the renewal time has come (\<open>renew_rebind_transition\<close>); the seconds
  until the timer should expire next, relative to \<open>m_lease_time_passed\<close>
  (\<open>renew_timer_rel_sec\<close>, before the limit \<open>MaxTimerSeconds\<close>); the request sent
  outside BOUND and the time remembered for it (\<open>renew_send_request\<close>).
\<close>

definition renew_rebind_transition ::
  "('t :: len) word \<Rightarrow> 't word IpDhcpClient \<Rightarrow> 't word IpDhcpClient" where
  "renew_rebind_transition now st =
     (if m_state st \<noteq> Rebinding \<and> m_lease_time_passed st \<ge> rebinding_time_s (m_info st)
        then new_xid now (st\<lparr>m_state := Rebinding\<rparr>)
      else if m_state st = Bound \<and> m_lease_time_passed st \<ge> renewal_time_s (m_info st)
        then new_xid now (st\<lparr>m_state := Renewing\<rparr>)
      else st)"

definition renew_timer_rel_sec :: "'time Params \<Rightarrow> 'time IpDhcpClient \<Rightarrow> u32" where
  "renew_timer_rel_sec P st =
     (if m_state st = Bound then renewal_time_s (m_info st) - m_lease_time_passed st
      else
        let next_state_sec =
              (if m_state st = Renewing then rebinding_time_s (m_info st)
               else lease_time_s (m_info st));
            next_state_rel_sec = next_state_sec - m_lease_time_passed st;
            rtx_rel_sec = max (ucast (MinRenewRtxTimeoutSeconds P)) (next_state_rel_sec div 2)
        in min next_state_rel_sec rtx_rel_sec)"

definition renew_send_request ::
  "'time Params \<Rightarrow> 'time \<Rightarrow> 'time IpDhcpClient \<Rightarrow> 'time IpDhcpClient" where
  "renew_send_request P now st =
     (if m_state st = Bound then st
      else (send_request P st)\<lparr>m_request_send_time := now,
                                m_request_send_time_passed := m_lease_time_passed st\<rparr>)"

definition handleTimerBoundRenewingRebinding ::
  "('t :: len) word Params \<Rightarrow> 't word \<Rightarrow> 't word IpDhcpClient \<Rightarrow> 't word IpDhcpClient" where
  "handleTimerBoundRenewingRebinding P now st0 =
     (let st = AIPSTACK_ASSERT (m_lease_time_passed st0 \<le> lease_time_s (m_info st0)) st0;
          passed_sec = TicksToSec P (now - getTimSetTime st)
      in if passed_sec \<ge> lease_time_s (m_info st) - m_lease_time_passed st
           then handle_expired_lease P now True st
         else
           let prev_lease_time_passed = m_lease_time_passed st;
               st1 = renew_rebind_transition now
                       (st\<lparr>m_lease_time_passed := m_lease_time_passed st + passed_sec\<rparr>);
               timer_rel_sec = min (renew_timer_rel_sec P st1) (MaxTimerSeconds P);
               st2 = renew_send_request P now st1;
               lease_time_passed = m_lease_time_passed st2 + timer_rel_sec
           in timer_setAt
                (getTimSetTime st2 +
                   SecToTicksNoAssert P (lease_time_passed - prev_lease_time_passed))
                (st2\<lparr>m_lease_time_passed := lease_time_passed\<rparr>))"

definition timerHandler ::
  "('t :: len) word Params \<Rightarrow> 't word \<Rightarrow> 't word IpDhcpClient \<Rightarrow> 't word IpDhcpClient" where
  "timerHandler P now st =
     (case m_state st of
        Resetting \<Rightarrow> handleTimerResetting P now st
      | Selecting \<Rightarrow> handleTimerSelecting P now st
      | Rebooting \<Rightarrow> handleTimerRebootingRequesting P now st
      | Requesting \<Rightarrow> handleTimerRebootingRequesting P now st
      | Checking \<Rightarrow> handleTimerChecking P now st
      | Bound \<Rightarrow> handleTimerBoundRenewingRebinding P now st
      | Renewing \<Rightarrow> handleTimerBoundRenewingRebinding P now st
      | Rebinding \<Rightarrow> handleTimerBoundRenewingRebinding P now st
      | LinkDown \<Rightarrow> AIPSTACK_ASSERT False st)"

subsection \<open>The other callbacks\<close>

definition retrySending :: "'time Params \<Rightarrow> 'time IpDhcpClient \<Rightarrow> 'time IpDhcpClient" where
  "retrySending P st =
     (if m_state st = Selecting then send_discover P st
      else if m_state st = Requesting \<or> m_state st = Renewing \<or>
              m_state st = Rebinding \<or> m_state st = Rebooting then send_request P st
      else st)"

definition ifaceStateChanged ::
  "('t :: len) word Params \<Rightarrow> 't word \<Rightarrow> bool \<Rightarrow> 't word IpDhcpClient \<Rightarrow> 't word IpDhcpClient" where
  "ifaceStateChanged P now link_up st =
     (if m_state st = LinkDown then
        (if link_up then start_discovery_or_rebooting P now st else st)
      else if \<not> link_up then
        (let had_lease = hasLease st;
             st1 = (if \<not> (had_lease \<or> m_state st = Rebooting)
                      then st\<lparr>m_info := (m_info st)\<lparr>ip_address := ZeroAddr\<rparr>\<rparr> else st);
             st2 = timer_unset (arp_observer_reset (st1\<lparr>m_state := LinkDown\<rparr>))
         in if had_lease then handle_dhcp_down True True st2 else st2)
      else st)"

definition arpInfoReceived ::
  "('t :: len) word Params \<Rightarrow> 't word \<Rightarrow> Ip4Addr \<Rightarrow> MacAddr \<Rightarrow>
     't word IpDhcpClient \<Rightarrow> 't word IpDhcpClient" where
  "arpInfoReceived P now ip_addr mac_addr st0 =
     (let st = AIPSTACK_ASSERT (m_state st0 = Checking) st0
      in if ip_addr = ip_address (m_info st)
           then go_resetting P now False (arp_observer_reset (send_decline P st))
         else st)"

subsection \<open>Received DHCP messages\<close>

text \<open>The offer accepted in SELECTING.\<close>

definition process_offer ::
  "('t :: len) word Params \<Rightarrow> 't word \<Rightarrow> Ip4Addr \<Rightarrow> DhcpRecvOptions \<Rightarrow>
     't word IpDhcpClient \<Rightarrow> 't word IpDhcpClient" where
  "process_offer P now addr opts st =
     set_timer_for_rtx P now (reset_rtx_timeout P
       ((send_request P
           (st\<lparr>m_info := (m_info st)\<lparr>ip_address := addr,
                    dhcp_server_identifier := recv_dhcp_server_identifier opts\<rparr>,
                m_state := Requesting,
                m_request_send_time := now\<rparr>))
        \<lparr>m_request_count := 1\<rparr>))"

text \<open>The lease information remembered from an ACK, after its fix-up.\<close>

definition update_lease_info ::
  "Ip4Addr \<Rightarrow> Ip4Addr \<Rightarrow> MacAddr \<Rightarrow> DhcpRecvOptions \<Rightarrow> LeaseInfo \<Rightarrow> LeaseInfo" where
  "update_lease_info addr src_addr rx_src_mac opts info =
     info\<lparr>ip_address := addr,
          dhcp_server_identifier := recv_dhcp_server_identifier opts,
          dhcp_server_addr := src_addr,
          lease_time_s := recv_ip_address_lease_time opts,
          renewal_time_s := recv_renewal_time opts,
          rebinding_time_s := recv_rebinding_time opts,
          subnet_mask := recv_subnet_mask opts,
          have_router := recv_have_router opts,
          router := (if recv_have_router opts then recv_router opts else ZeroAddr),
          domain_name_servers_count := recv_have_dns_servers opts,
          domain_name_servers :=
            take (unat (recv_have_dns_servers opts)) (recv_dns_servers opts)
            @ drop (unat (recv_have_dns_servers opts)) (domain_name_servers info),
          server_mac := rx_src_mac\<rparr>"

text \<open>
  An ACK in REQUESTING, RENEWING, REBINDING or REBOOTING. \<open>rx_src_mac\<close> is the source
  address of the Ethernet frame the message came in (\<open>ethHw()->getRxEthHeader()\<close>).
\<close>

definition process_ack ::
  "('t :: len) word Params \<Rightarrow> 't word \<Rightarrow> Ip4Addr \<Rightarrow> MacAddr \<Rightarrow> Ip4Addr \<Rightarrow> DhcpRecvOptions \<Rightarrow>
     't word IpDhcpClient \<Rightarrow> 't word IpDhcpClient" where
  "process_ack P now src_addr rx_src_mac addr opts0 st =
     (case checkAndFixupAck addr opts0 of
        (False, opts) \<Rightarrow> st
      | (True, opts) \<Rightarrow>
          if m_state st = Requesting \<and>
             (addr \<noteq> ip_address (m_info st) \<or>
              recv_dhcp_server_identifier opts \<noteq> dhcp_server_identifier (m_info st))
            then st
          else
            let st1 =
                  (if m_state st \<noteq> Requesting \<and> m_state st \<noteq> Rebooting
                     then AIPSTACK_ASSERT
                            (m_lease_time_passed st \<ge> m_request_send_time_passed st) st
                   else st)
            in if m_state st \<noteq> Requesting \<and> m_state st \<noteq> Rebooting \<and>
                  m_lease_time_passed st - m_request_send_time_passed st > MaxTimerSeconds P
                 then st1
               else
                 let st2 = st1\<lparr>m_info :=
                             update_lease_info addr src_addr rx_src_mac opts (m_info st1)\<rparr>
                 in if m_state st2 = Requesting then go_checking P now st2
                    else go_bound P now st2)"

definition processReceivedDhcpMessage ::
  "('t :: len) word Params \<Rightarrow> 't word \<Rightarrow> Ip4Addr \<Rightarrow> MacAddr \<Rightarrow> DhcpMessage \<Rightarrow>
     't word IpDhcpClient \<Rightarrow> 't word IpDhcpClient" where
  "processReceivedDhcpMessage P now src_addr rx_src_mac msg st =
     (if m_state st = LinkDown \<or> m_state st = Resetting \<or>
         m_state st = Checking \<or> m_state st = Bound then st
      else if msg_tot_len msg < DhcpHeaderSize \<or> \<not> msg_hasHeader msg then st
      else if \<not> (msg_DhcpOp msg = BootReply \<and>
                  msg_DhcpHtype msg = DhcpHwAddrType_Ethernet \<and>
                  msg_DhcpHlen msg = MacAddr_Size \<and>
                  msg_DhcpXid msg = m_xid st \<and>
                  msg_DhcpChaddr msg = iface_MacAddr P) then st
      else if msg_DhcpMagic msg \<noteq> DhcpMagic then st
      else
        case msg_parseOptions msg of
          None \<Rightarrow> st
        | Some opts \<Rightarrow>
            if \<not> recv_have_dhcp_message_type opts \<or>
               \<not> (recv_dhcp_message_type opts = Offer \<or> recv_dhcp_message_type opts = Ack \<or>
                  recv_dhcp_message_type opts = Nak) then st
            else if \<not> recv_have_dhcp_server_identifier opts then st
            else if recv_dhcp_message_type opts = Nak then
              (if \<not> (m_state st = Requesting \<or> m_state st = Renewing \<or>
                      m_state st = Rebinding \<or> m_state st = Rebooting) then st
               else if m_state st = Requesting \<and>
                       recv_dhcp_server_identifier opts \<noteq> dhcp_server_identifier (m_info st)
                 then st
               else go_resetting P now (m_state st \<noteq> Requesting) st)
            else if recv_dhcp_message_type opts = Offer \<and> m_state st = Selecting then
              (if \<not> checkOffer (msg_DhcpYiaddr msg) then st
               else process_offer P now (msg_DhcpYiaddr msg) opts st)
            else if recv_dhcp_message_type opts = Ack \<and>
                    (m_state st = Requesting \<or> m_state st = Renewing \<or>
                     m_state st = Rebinding \<or> m_state st = Rebooting) then
              process_ack P now src_addr rx_src_mac (msg_DhcpYiaddr msg) opts st
            else st)"

text \<open>
  \<open>udpIp4PacketReceived\<close>: \<open>unicast_src\<close> is what \<open>IpStack::checkUnicastSrcAddr\<close>
  (not among the source files) says of the datagram.
\<close>

definition udpIp4PacketReceived ::
  "('t :: len) word Params \<Rightarrow> 't word \<Rightarrow> nat \<Rightarrow> bool \<Rightarrow> Ip4Addr \<Rightarrow> MacAddr \<Rightarrow> DhcpMessage \<Rightarrow>
     't word IpDhcpClient \<Rightarrow> 't word IpDhcpClient" where
  "udpIp4PacketReceived P now src_port unicast_src src_addr rx_src_mac udp_data st =
     (if src_port \<noteq> DhcpServerPort then st
      else if \<not> unicast_src then st
      else processReceivedDhcpMessage P now src_addr rx_src_mac udp_data st)"

subsection \<open>Construction and the events of a run\<close>

record IpDhcpClientInitOptions =
  init_client_id :: MemRef
  init_vendor_class_id :: MemRef
  init_request_ip_address :: Ip4Addr

text \<open>
  The constructor. It initialises the timer, the observers, the handler, the two
  identifiers and \<open>m_info.ip_address\<close>, and then starts discovery or rebooting, or sets
  the state LINK_DOWN; every other member variable keeps the value of the memory the
  object is built in, \<open>raw\<close>. \<open>link_up\<close> is what the interface's driver reports.
\<close>

definition IpDhcpClient_construct ::
  "('t :: len) word Params \<Rightarrow> 't word \<Rightarrow> bool \<Rightarrow> IpDhcpClientInitOptions \<Rightarrow> bool \<Rightarrow>
     't word IpDhcpClient \<Rightarrow> 't word IpDhcpClient" where
  "IpDhcpClient_construct P now link_up opts handler raw =
     (let st = raw\<lparr>m_timer_set := False,
                   m_arp_observer := False,
                   m_handler := handler,
                   m_client_id := init_client_id opts,
                   m_vendor_class_id := init_vendor_class_id opts,
                   m_info := (m_info raw)\<lparr>ip_address := init_request_ip_address opts\<rparr>,
                   effects := [],
                   assert_failed := False\<rparr>
      in if link_up then start_discovery_or_rebooting P now st
         else st\<lparr>m_state := LinkDown\<rparr>)"

text \<open>
  The callbacks the event loop can make, each with the reading of the clock
  (\<open>platform().getTime()\<close>) during the callback; a callback runs to completion and the
  model reads the clock once in it.
\<close>

datatype 'time event =
    TimerExpired 'time
  | UdpIp4PacketReceived 'time nat bool Ip4Addr MacAddr DhcpMessage
  | IfaceStateChanged 'time bool
  | ArpInfoReceived 'time Ip4Addr MacAddr
  | RetrySending

text \<open>
  The one-shot timer calls its handler only when it is armed, and is no longer armed
  when it does; the ARP observer is called only while it is subscribed.
\<close>

fun step ::
  "('t :: len) word Params \<Rightarrow> 't word event \<Rightarrow> 't word IpDhcpClient \<Rightarrow> 't word IpDhcpClient" where
  "step P (TimerExpired now) st =
     (if m_timer_set st then timerHandler P now (timer_unset st) else st)"
| "step P (UdpIp4PacketReceived now src_port unicast_src src_addr rx_src_mac udp_data) st =
     udpIp4PacketReceived P now src_port unicast_src src_addr rx_src_mac udp_data st"
| "step P (IfaceStateChanged now link_up) st = ifaceStateChanged P now link_up st"
| "step P (ArpInfoReceived now ip_addr mac_addr) st =
     (if m_arp_observer st then arpInfoReceived P now ip_addr mac_addr st else st)"
| "step P RetrySending st = retrySending P st"

fun run ::
  "('t :: len) word Params \<Rightarrow> 't word IpDhcpClient \<Rightarrow> 't word event list \<Rightarrow> 't word IpDhcpClient" where
  "run P st [] = st"
| "run P st (ev # evs) = run P (step P ev st) evs"

subsection \<open>The retransmission timeout after a number of retransmissions\<close>

text \<open>
  \<open>reset_rtx_timeout\<close> when a phase starts, \<open>double_rtx_timeout\<close> at each of the \<open>n\<close>
  retransmissions after it.
\<close>

definition rtx_timeout_after :: "'time Params \<Rightarrow> 'time IpDhcpClient \<Rightarrow> nat \<Rightarrow> u8" where
  "rtx_timeout_after P st n =
     m_rtx_timeout ((double_rtx_timeout P ^^ n) (reset_rtx_timeout P st))"

subsection \<open>An example configuration\<close>

text \<open>
  The default options of \<open>IpDhcpClientOptions\<close>, on a platform whose clock is a 32-bit
  count of milliseconds of which half the range can be used for timers; the interface
  has the MAC address 02:00:00:00:00:01 and an MTU of 1500.
\<close>

definition example_Params :: "32 word Params" where
  "example_Params = \<lparr>
     MaxDnsServers = 2, MaxClientIdSize = 16, MaxVendorClassIdSize = 16,
     XidReuseMax = 3, MaxRequests = 3, MaxRebootRequests = 2,
     BaseRtxTimeoutSeconds = 3, MaxRtxTimeoutSeconds = 64,
     ResetTimeoutSeconds = 3, MinRenewRtxTimeoutSeconds = 60,
     ArpResponseTimeoutSeconds = 1, NumArpQueries = 2,
     TimeFreq = 1000, WorkingTimeSpanTicks = 0x7FFFFFFF,
     iface_MacAddr = 0x020000000001, iface_Mtu = 1500 \<rparr>"

text \<open>The memory a client is constructed in: here all zero.\<close>

definition example_raw :: "('t :: len) word IpDhcpClient" where
  "example_raw = \<lparr>
     m_timer_set = False, m_timer_time = 0, m_arp_observer = False, m_handler = False,
     m_client_id = [], m_vendor_class_id = [], m_xid = 0, m_rtx_timeout = 0,
     m_state = LinkDown, m_request_count = 0, m_lease_time_passed = 0,
     m_request_send_time = 0, m_request_send_time_passed = 0,
     m_info = \<lparr> ip_address = 0, dhcp_server_identifier = 0, dhcp_server_addr = 0,
                lease_time_s = 0, renewal_time_s = 0, rebinding_time_s = 0,
                subnet_mask = 0, server_mac = 0, have_router = False,
                domain_name_servers_count = 0, router = 0, domain_name_servers = [0, 0] \<rparr>,
     effects = [], assert_failed = False \<rparr>"

text \<open>
  The options of an ACK for a lease of an hour that gives a router and a DNS server,
  but no subnet mask, renewal time or rebinding time; and the options after the fix-up
  for the address 192.0.2.10.
\<close>

definition example_ack_options :: DhcpRecvOptions where
  "example_ack_options = \<lparr>
     recv_have_dhcp_message_type = True,
     recv_have_dhcp_server_identifier = True,
     recv_have_ip_address_lease_time = True,
     recv_have_renewal_time = False,
     recv_have_rebinding_time = False,
     recv_have_subnet_mask = False,
     recv_have_router = True,
     recv_have_dns_servers = 1,
     recv_dhcp_message_type = Ack,
     recv_dhcp_server_identifier = Ip4Addr_of 192 0 2 1,
     recv_ip_address_lease_time = 3600,
     recv_renewal_time = 0,
     recv_rebinding_time = 0,
     recv_subnet_mask = 0,
     recv_router = Ip4Addr_of 192 0 2 1,
     recv_dns_servers = [Ip4Addr_of 192 0 2 2] \<rparr>"

definition example_ack_options_fixed :: DhcpRecvOptions where
  "example_ack_options_fixed =
     example_ack_options\<lparr>recv_renewal_time := 1800, recv_rebinding_time := 3150,
                          recv_subnet_mask := Ip4Addr_of 255 255 255 0\<rparr>"

subsection \<open>An example run\<close>

text \<open>
  A client constructed at time 5000 (in milliseconds) on an interface whose link is up,
  with a handler and without a requested address; the offer of 192.0.2.10 by the
  server 192.0.2.1 a second later, the ACK that follows, and the two timeouts of the
  ARP check; the timer at the renewal time, half an hour after the request.
\<close>

definition example_init :: IpDhcpClientInitOptions where
  "example_init =
     \<lparr> init_client_id = [], init_vendor_class_id = [], init_request_ip_address = 0 \<rparr>"

definition example_client :: "32 word IpDhcpClient" where
  "example_client =
     IpDhcpClient_construct example_Params 5000 True example_init True example_raw"

definition example_offer :: DhcpMessage where
  "example_offer = \<lparr>
     msg_tot_len = 300, msg_hasHeader = True, msg_DhcpOp = 2, msg_DhcpHtype = 1,
     msg_DhcpHlen = 6, msg_DhcpXid = 5000, msg_DhcpYiaddr = Ip4Addr_of 192 0 2 10,
     msg_DhcpChaddr = 0x020000000001, msg_DhcpMagic = 0x63825363,
     msg_parseOptions = Some (example_ack_options\<lparr>recv_dhcp_message_type := Offer\<rparr>) \<rparr>"

definition example_ack :: DhcpMessage where
  "example_ack = example_offer\<lparr>msg_parseOptions := Some example_ack_options\<rparr>"

definition example_nak :: DhcpMessage where
  "example_nak =
     example_offer\<lparr>msg_parseOptions :=
       Some (example_ack_options\<lparr>recv_dhcp_message_type := Nak\<rparr>)\<rparr>"

definition example_requesting :: "32 word IpDhcpClient" where
  "example_requesting =
     step example_Params
       (UdpIp4PacketReceived 6000 67 True (Ip4Addr_of 192 0 2 1) 0x02AAAAAAAAAA example_offer)
       example_client"

definition example_checking :: "32 word IpDhcpClient" where
  "example_checking =
     step example_Params
       (UdpIp4PacketReceived 6100 67 True (Ip4Addr_of 192 0 2 1) 0x02AAAAAAAAAA example_ack)
       example_requesting"

definition example_bound :: "32 word IpDhcpClient" where
  "example_bound =
     run example_Params example_checking [TimerExpired 7100, TimerExpired 8100]"

definition example_renewing :: "32 word IpDhcpClient" where
  "example_renewing = step example_Params (TimerExpired 1806000) example_bound"

subsection \<open>The lease invariant\<close>

text \<open>
  The client in \<open>handleTimerBoundRenewingRebinding\<close> after the assertion, the update
  of \<open>m_lease_time_passed\<close> by the seconds that passed and the change of state.
\<close>

definition renew_after ::
  "('t :: len) word Params \<Rightarrow> 't word \<Rightarrow> 't word IpDhcpClient \<Rightarrow> 't word IpDhcpClient" where
  "renew_after P now st =
     renew_rebind_transition now
       (st\<lparr>assert_failed :=
             assert_failed st \<or> \<not> m_lease_time_passed st \<le> lease_time_s (m_info st),
           m_lease_time_passed :=
             m_lease_time_passed st + TicksToSec P (now - m_timer_time st)\<rparr>)"

text \<open>
  What holds of the lease times once an ACK was accepted, and of the time that has
  passed while the client has a lease.
\<close>

definition times_ordered :: "LeaseInfo \<Rightarrow> bool" where
  "times_ordered info \<longleftrightarrow>
     renewal_time_s info \<le> rebinding_time_s info \<and> rebinding_time_s info \<le> lease_time_s info"

definition lease_inv :: "'time IpDhcpClient \<Rightarrow> bool" where
  "lease_inv st \<longleftrightarrow>
     ((m_state st = Checking \<or> hasLease st) \<longrightarrow> times_ordered (m_info st)) \<and>
     (hasLease st \<longrightarrow> m_lease_time_passed st \<le> lease_time_s (m_info st))"

definition example_acquire :: "32 word event list" where
  "example_acquire =
     [UdpIp4PacketReceived 6000 67 True (Ip4Addr_of 192 0 2 1) 0x02AAAAAAAAAA example_offer,
      UdpIp4PacketReceived 6100 67 True (Ip4Addr_of 192 0 2 1) 0x02AAAAAAAAAA example_ack,
      TimerExpired 7100, TimerExpired 8100]"

subsection \<open>Timers in SELECTING\<close>

text \<open>The timer firing in SELECTING at each of the times of a list, in turn.\<close>

fun selecting_timers ::
  "('t :: len) word Params \<Rightarrow> 't word IpDhcpClient \<Rightarrow> 't word list \<Rightarrow> 't word IpDhcpClient" where
  "selecting_timers P st [] = st"
| "selecting_timers P st (now # nows) = selecting_timers P (handleTimerSelecting P now st) nows"

text \<open>The XIDs of the DISCOVER messages among a list of effects, in order.\<close>

fun discover_xids :: "effect list \<Rightarrow> u32 list" where
  "discover_xids [] = []"
| "discover_xids (SendUdpIp4Packet m # es) =
     (if sent_msg_type m = Discover then sent_DhcpXid m # discover_xids es
      else discover_xids es)"
| "discover_xids (e # es) = discover_xids es"

subsection \<open>More example runs\<close>

text \<open>
  The example client in RENEWING after four retransmissions of its request, each at
  the time its timer was set for: 25 seconds before the rebinding time.
\<close>

definition example_renewing_late :: "32 word IpDhcpClient" where
  "example_renewing_late =
     run example_Params example_renewing
       [TimerExpired 2481000, TimerExpired 2818000, TimerExpired 2987000, TimerExpired 3071000]"

text \<open>
  The same exchange with an ACK that grants the address for a year and asks for renewal
  after half an hour; the client in RENEWING after its first request, with the timer set
  as far ahead as the platform's timer can span, 2147483 seconds.
\<close>

definition example_ack_year :: DhcpMessage where
  "example_ack_year =
     example_ack\<lparr>msg_parseOptions :=
       Some (example_ack_options\<lparr>recv_ip_address_lease_time := 31536000,
                                  recv_have_renewal_time := True,
                                  recv_renewal_time := 1800\<rparr>)\<rparr>"

definition example_renewing_year :: "32 word IpDhcpClient" where
  "example_renewing_year =
     run example_Params example_requesting
       [UdpIp4PacketReceived 6100 67 True (Ip4Addr_of 192 0 2 1) 0x02AAAAAAAAAA example_ack_year,
        TimerExpired 7100, TimerExpired 8100, TimerExpired 1806000]"

text \<open>
  A client constructed to request the address 192.0.2.10 again (REBOOTING), and an ACK
  that grants it for one second.
\<close>

definition example_init_reboot :: IpDhcpClientInitOptions where
  "example_init_reboot =
     \<lparr> init_client_id = [], init_vendor_class_id = [],
       init_request_ip_address = Ip4Addr_of 192 0 2 10 \<rparr>"

definition example_rebooting :: "32 word IpDhcpClient" where
  "example_rebooting =
     IpDhcpClient_construct example_Params 5000 True example_init_reboot True example_raw"

definition example_ack_short :: DhcpMessage where
  "example_ack_short =
     example_ack\<lparr>msg_parseOptions :=
       Some (example_ack_options\<lparr>recv_ip_address_lease_time := 1\<rparr>)\<rparr>"

text \<open>
  The default options on a platform whose clock is a 64-bit count of nanoseconds, and
  a client constructed there at time 1000 with the link up.
\<close>

definition example_Params_ns :: "64 word Params" where
  "example_Params_ns = \<lparr>
     MaxDnsServers = 2, MaxClientIdSize = 16, MaxVendorClassIdSize = 16,
     XidReuseMax = 3, MaxRequests = 3, MaxRebootRequests = 2,
     BaseRtxTimeoutSeconds = 3, MaxRtxTimeoutSeconds = 64,
     ResetTimeoutSeconds = 3, MinRenewRtxTimeoutSeconds = 60,
     ArpResponseTimeoutSeconds = 1, NumArpQueries = 2,
     TimeFreq = 1000000000, WorkingTimeSpanTicks = 0x7FFFFFFFFFFFFFFF,
     iface_MacAddr = 0x020000000001, iface_Mtu = 1500 \<rparr>"

definition example_client_ns :: "64 word IpDhcpClient" where
  "example_client_ns =
     IpDhcpClient_construct example_Params_ns 1000 True example_init True example_raw"

section \<open>Properties\<close>

subsection \<open>Words\<close>

lemma unat_u32_bound: "unat (l :: u32) < 4294967296"
  using unsigned_less [of l, where 'a = nat] by simp

lemma unat_u8_bound: "unat (l :: u8) < 256"
  using unsigned_less [of l, where 'a = nat] by simp

lemma unat_ucast_u32_u64: "unat (ucast (l :: u32) :: u64) = unat l"
proof -
  have "unat l < 2 ^ 64" using unat_u32_bound [of l] by simp
  then show ?thesis
    by (simp add: unsigned_ucast_eq take_bit_nat_eq_self)
qed

lemma unat_ucast_u64_u32:
  "unat l < 4294967296 \<Longrightarrow> unat (ucast (l :: u64) :: u32) = unat l"
  by (simp add: unsigned_ucast_eq take_bit_nat_eq_self)

lemma unat_DefaultRenewTimeForLeaseTime:
  "unat (DefaultRenewTimeForLeaseTime l) = unat l div 2"
  by (simp add: DefaultRenewTimeForLeaseTime_def unat_div)

lemma unat_DefaultRebindingTimeForLeaseTime:
  "unat (DefaultRebindingTimeForLeaseTime l) = unat l * 7 div 8"
proof -
  have l: "unat l < 4294967296" by (rule unat_u32_bound)
  have "unat (ucast l :: u64) * unat (7 :: u64) < 2 ^ 64"
    using l by (simp add: unat_ucast_u32_u64)
  then have a: "unat ((ucast l :: u64) * 7) = unat l * 7"
    by (simp add: unat_mult_lem [THEN iffD1] unat_ucast_u32_u64)
  have b: "unat ((ucast l :: u64) * 7 div 8) = unat l * 7 div 8"
    by (simp add: unat_div a)
  have c: "unat l * 7 div 8 < 4294967296" using l by simp
  show ?thesis
    unfolding DefaultRebindingTimeForLeaseTime_def
    using b c by (simp add: unat_ucast_u64_u32)
qed

subsection \<open>Evaluating addresses\<close>

lemma leading_ones_from_numeral:
  "leading_ones_from a (numeral k) =
     (if bit a (pred_numeral k) then Suc (leading_ones_from a (pred_numeral k)) else 0)"
  by (simp add: numeral_eq_Suc)

lemmas Ip4Addr_defs =
  Ip4Addr_of_def ZeroAddr_def AllOnesAddr_def isZero_def isAllOnes_def PrefixMask_def
  countLeadingOnes_def Join_def leading_ones_from_numeral mask_eq_exp_minus_1 checkOffer_def

lemma class_bounds:
  "Ip4Addr_of 128 0 0 0 = 2147483648" "Ip4Addr_of 192 0 0 0 = 3221225472"
  "Ip4Addr_of 224 0 0 0 = 3758096384"
  by (simp_all add: Ip4Addr_of_def)

subsection \<open>The fix-up of an ACK\<close>

lemma ack_default_subnet_mask_fields:
  "ack_default_subnet_mask addr opts = Some opts1 \<Longrightarrow>
     recv_ip_address_lease_time opts1 = recv_ip_address_lease_time opts \<and>
     recv_have_renewal_time opts1 = recv_have_renewal_time opts \<and>
     recv_have_rebinding_time opts1 = recv_have_rebinding_time opts \<and>
     recv_renewal_time opts1 = recv_renewal_time opts \<and>
     recv_rebinding_time opts1 = recv_rebinding_time opts \<and>
     recv_dhcp_server_identifier opts1 = recv_dhcp_server_identifier opts"
  by (auto simp: ack_default_subnet_mask_def split: if_splits)

lemma ack_ignore_bad_router_fields [simp]:
  "recv_ip_address_lease_time (ack_ignore_bad_router addr opts) = recv_ip_address_lease_time opts"
  "recv_have_renewal_time (ack_ignore_bad_router addr opts) = recv_have_renewal_time opts"
  "recv_have_rebinding_time (ack_ignore_bad_router addr opts) = recv_have_rebinding_time opts"
  "recv_renewal_time (ack_ignore_bad_router addr opts) = recv_renewal_time opts"
  "recv_rebinding_time (ack_ignore_bad_router addr opts) = recv_rebinding_time opts"
  "recv_subnet_mask (ack_ignore_bad_router addr opts) = recv_subnet_mask opts"
  "recv_dhcp_server_identifier (ack_ignore_bad_router addr opts) = recv_dhcp_server_identifier opts"
  by (simp_all add: ack_ignore_bad_router_def)

lemma ack_fixup_renewal_time_fields [simp]:
  "recv_ip_address_lease_time (ack_fixup_renewal_time opts) = recv_ip_address_lease_time opts"
  "recv_have_rebinding_time (ack_fixup_renewal_time opts) = recv_have_rebinding_time opts"
  "recv_rebinding_time (ack_fixup_renewal_time opts) = recv_rebinding_time opts"
  "recv_subnet_mask (ack_fixup_renewal_time opts) = recv_subnet_mask opts"
  "recv_dhcp_server_identifier (ack_fixup_renewal_time opts) = recv_dhcp_server_identifier opts"
  "recv_renewal_time (ack_fixup_renewal_time opts) =
     min (recv_ip_address_lease_time opts)
       (if recv_have_renewal_time opts then recv_renewal_time opts
        else DefaultRenewTimeForLeaseTime (recv_ip_address_lease_time opts))"
  by (simp_all add: ack_fixup_renewal_time_def Let_def)

lemma ack_fixup_rebinding_time_fields [simp]:
  "recv_ip_address_lease_time (ack_fixup_rebinding_time opts) = recv_ip_address_lease_time opts"
  "recv_renewal_time (ack_fixup_rebinding_time opts) = recv_renewal_time opts"
  "recv_subnet_mask (ack_fixup_rebinding_time opts) = recv_subnet_mask opts"
  "recv_dhcp_server_identifier (ack_fixup_rebinding_time opts) = recv_dhcp_server_identifier opts"
  "recv_rebinding_time (ack_fixup_rebinding_time opts) =
     max (recv_renewal_time opts)
       (min (recv_ip_address_lease_time opts)
          (if recv_have_rebinding_time opts then recv_rebinding_time opts
           else DefaultRebindingTimeForLeaseTime (recv_ip_address_lease_time opts)))"
  by (simp_all add: ack_fixup_rebinding_time_def Let_def)

lemma checkAndFixupAck_TrueD:
  assumes "checkAndFixupAck addr opts = (True, opts')"
  obtains opts1 where "checkOffer addr" "recv_have_ip_address_lease_time opts"
    "ack_default_subnet_mask addr opts = Some opts1"
    "recv_subnet_mask opts1 = PrefixMask (countLeadingOnes (recv_subnet_mask opts1))"
    "addr \<noteq> Join (recv_subnet_mask opts1) addr AllOnesAddr"
    "opts' = ack_fixup_rebinding_time (ack_fixup_renewal_time (ack_ignore_bad_router addr opts1))"
  using assms unfolding checkAndFixupAck_def
  by (auto split: if_splits option.splits)

lemma checkAndFixupAck_ordered:
  assumes "checkAndFixupAck addr opts = (True, opts')"
  shows "recv_renewal_time opts' \<le> recv_rebinding_time opts'"
    and "recv_rebinding_time opts' \<le> recv_ip_address_lease_time opts'"
    and "recv_dhcp_server_identifier opts' = recv_dhcp_server_identifier opts"
proof -
  from assms obtain opts1 where
    m: "ack_default_subnet_mask addr opts = Some opts1" and
    o: "opts' = ack_fixup_rebinding_time (ack_fixup_renewal_time (ack_ignore_bad_router addr opts1))"
    by (rule checkAndFixupAck_TrueD)
  note f = ack_default_subnet_mask_fields [OF m]
  show "recv_renewal_time opts' \<le> recv_rebinding_time opts'"
    and "recv_rebinding_time opts' \<le> recv_ip_address_lease_time opts'"
    and "recv_dhcp_server_identifier opts' = recv_dhcp_server_identifier opts"
    unfolding o by (simp_all add: f)
qed

lemma ack_default_subnet_mask_absent:
  assumes "\<not> recv_have_subnet_mask opts"
  shows "ack_default_subnet_mask addr opts =
     (if addr < Ip4Addr_of 224 0 0 0 then
        Some (opts\<lparr>recv_subnet_mask :=
          (if addr < Ip4Addr_of 128 0 0 0 then Ip4Addr_of 255 0 0 0
           else if addr < Ip4Addr_of 192 0 0 0 then Ip4Addr_of 255 255 0 0
           else Ip4Addr_of 255 255 255 0)\<rparr>)
      else None)"
proof -
  have "addr < Ip4Addr_of 128 0 0 0 \<Longrightarrow> addr < Ip4Addr_of 192 0 0 0"
    unfolding class_bounds by unat_arith
  moreover have "addr < Ip4Addr_of 192 0 0 0 \<Longrightarrow> addr < Ip4Addr_of 224 0 0 0"
    unfolding class_bounds by unat_arith
  ultimately show ?thesis using assms
    by (auto simp: ack_default_subnet_mask_def)
qed

lemma example_ack_accepted:
  "checkAndFixupAck (Ip4Addr_of 192 0 2 10) example_ack_options
     = (True, example_ack_options_fixed)"
  by (simp add: checkAndFixupAck_def ack_default_subnet_mask_def ack_ignore_bad_router_def
      ack_fixup_renewal_time_def ack_fixup_rebinding_time_def example_ack_options_def
      example_ack_options_fixed_def DefaultRenewTimeForLeaseTime_def
      DefaultRebindingTimeForLeaseTime_def Ip4Addr_defs)

text \<open>
  Claim C1. An ACK that \<open>checkAndFixupAck\<close> accepts leaves it with
  \<open>renewal_time \<le> rebinding_time \<le> ip_address_lease_time\<close>. The lease time is the
  one received; the renewal time is the received one, or half the lease time when the
  ACK has none, and at most the lease time; the rebinding time is the received one, or
  seven eighths of the lease time when the ACK has none, brought into the range from the
  renewal time to the lease time. The two defaults are the exact quotients: nothing
  overflows.
\<close>

theorem checkAndFixupAck_times:
  assumes "checkAndFixupAck addr opts = (True, opts')"
  shows "recv_renewal_time opts' \<le> recv_rebinding_time opts' \<and>
         recv_rebinding_time opts' \<le> recv_ip_address_lease_time opts' \<and>
         recv_ip_address_lease_time opts' = recv_ip_address_lease_time opts \<and>
         recv_renewal_time opts' =
           min (recv_ip_address_lease_time opts)
             (if recv_have_renewal_time opts then recv_renewal_time opts
              else DefaultRenewTimeForLeaseTime (recv_ip_address_lease_time opts)) \<and>
         recv_rebinding_time opts' =
           max (recv_renewal_time opts')
             (min (recv_ip_address_lease_time opts)
                (if recv_have_rebinding_time opts then recv_rebinding_time opts
                 else DefaultRebindingTimeForLeaseTime (recv_ip_address_lease_time opts))) \<and>
         unat (DefaultRenewTimeForLeaseTime (recv_ip_address_lease_time opts))
           = unat (recv_ip_address_lease_time opts) div 2 \<and>
         unat (DefaultRebindingTimeForLeaseTime (recv_ip_address_lease_time opts))
           = unat (recv_ip_address_lease_time opts) * 7 div 8"
proof -
  from assms obtain opts1 where
    m: "ack_default_subnet_mask addr opts = Some opts1" and
    o: "opts' = ack_fixup_rebinding_time (ack_fixup_renewal_time (ack_ignore_bad_router addr opts1))"
    by (rule checkAndFixupAck_TrueD)
  note f = ack_default_subnet_mask_fields [OF m]
  show ?thesis
    unfolding o unat_DefaultRenewTimeForLeaseTime unat_DefaultRebindingTimeForLeaseTime
    by (simp add: f)
qed

theorem checkAndFixupAck_times_witness:
  "checkAndFixupAck (Ip4Addr_of 192 0 2 10) example_ack_options
     = (True, example_ack_options_fixed) \<and>
   recv_renewal_time example_ack_options_fixed = 1800 \<and>
   recv_rebinding_time example_ack_options_fixed = 3150 \<and>
   recv_renewal_time example_ack_options_fixed \<le> recv_rebinding_time example_ack_options_fixed \<and>
   recv_rebinding_time example_ack_options_fixed
     \<le> recv_ip_address_lease_time example_ack_options_fixed"
  using checkAndFixupAck_times [OF example_ack_accepted]
  by (simp add: example_ack_accepted example_ack_options_fixed_def)

text \<open>
  Claim C3. For an ACK without a subnet mask option, \<open>checkAndFixupAck\<close> chooses the
  mask by the class of the address: 255.0.0.0 below 128.0.0.0, 255.255.0.0 below
  192.0.0.0, 255.255.255.0 below 224.0.0.0; it rejects the ACK for any other address.
  The mask is the one the function leaves in the options whenever the address and the
  lease time passed the checks before, and so for every ACK it accepts.
\<close>

theorem checkAndFixupAck_classful_mask:
  assumes "\<not> recv_have_subnet_mask opts"
  shows "(fst (checkAndFixupAck addr opts) \<longrightarrow>
            addr < Ip4Addr_of 224 0 0 0 \<and>
            recv_subnet_mask (snd (checkAndFixupAck addr opts)) =
              (if addr < Ip4Addr_of 128 0 0 0 then Ip4Addr_of 255 0 0 0
               else if addr < Ip4Addr_of 192 0 0 0 then Ip4Addr_of 255 255 0 0
               else Ip4Addr_of 255 255 255 0)) \<and>
         (\<not> addr < Ip4Addr_of 224 0 0 0 \<longrightarrow> \<not> fst (checkAndFixupAck addr opts)) \<and>
         (checkOffer addr \<and> recv_have_ip_address_lease_time opts \<and>
          addr < Ip4Addr_of 224 0 0 0 \<longrightarrow>
            recv_subnet_mask (snd (checkAndFixupAck addr opts)) =
              (if addr < Ip4Addr_of 128 0 0 0 then Ip4Addr_of 255 0 0 0
               else if addr < Ip4Addr_of 192 0 0 0 then Ip4Addr_of 255 255 0 0
               else Ip4Addr_of 255 255 255 0))"
  unfolding checkAndFixupAck_def ack_default_subnet_mask_absent [OF assms]
  by simp

theorem checkAndFixupAck_classful_mask_witness:
  "\<not> recv_have_subnet_mask example_ack_options \<and>
   fst (checkAndFixupAck (Ip4Addr_of 192 0 2 10) example_ack_options) \<and>
   checkOffer (Ip4Addr_of 192 0 2 10) \<and>
   recv_have_ip_address_lease_time example_ack_options \<and>
   Ip4Addr_of 192 0 2 10 < Ip4Addr_of 224 0 0 0 \<and>
   \<not> Ip4Addr_of 192 0 2 10 < Ip4Addr_of 192 0 0 0 \<and>
   recv_subnet_mask (snd (checkAndFixupAck (Ip4Addr_of 192 0 2 10) example_ack_options))
     = Ip4Addr_of 255 255 255 0 \<and>
   \<not> Ip4Addr_of 240 0 0 1 < Ip4Addr_of 224 0 0 0 \<and>
   checkOffer (Ip4Addr_of 240 0 0 1) \<and>
   \<not> fst (checkAndFixupAck (Ip4Addr_of 240 0 0 1) example_ack_options)"
proof -
  have h: "\<not> recv_have_subnet_mask example_ack_options"
    by (simp add: example_ack_options_def)
  have a: "checkOffer (Ip4Addr_of 192 0 2 10)" "checkOffer (Ip4Addr_of 240 0 0 1)"
    "Ip4Addr_of 192 0 2 10 < Ip4Addr_of 224 0 0 0"
    "\<not> Ip4Addr_of 192 0 2 10 < Ip4Addr_of 192 0 0 0"
    "\<not> Ip4Addr_of 192 0 2 10 < Ip4Addr_of 128 0 0 0"
    "\<not> Ip4Addr_of 240 0 0 1 < Ip4Addr_of 224 0 0 0"
    by (simp_all add: Ip4Addr_defs)
  have l: "recv_have_ip_address_lease_time example_ack_options"
    by (simp add: example_ack_options_def)
  show ?thesis
    using checkAndFixupAck_classful_mask [OF h, of "Ip4Addr_of 192 0 2 10"]
      checkAndFixupAck_classful_mask [OF h, of "Ip4Addr_of 240 0 0 1"]
    by (simp add: h a l example_ack_accepted)
qed

subsection \<open>Unfolding the client's functions\<close>

lemmas prim_defs =
  AIPSTACK_ASSERT_def emit_def timer_setAfter_def timer_setAt_def timer_unset_def
  arp_observer_observe_def arp_observer_reset_def new_xid_def reset_rtx_timeout_def
  double_rtx_timeout_def set_timer_for_rtx_def SecToTicks_assert_def
  send_dhcp_message_def send_discover_def send_request_def send_decline_def
  sendArpQuery_def handle_dhcp_up_def handle_dhcp_down_def getTimSetTime_def

lemmas machine_defs =
  start_discovery_or_rebooting_def start_discovery_def handle_expired_lease_def
  go_resetting_def go_checking_def go_bound_set_timer_def go_bound_def
  handleTimerResetting_def handleTimerSelecting_def handleTimerRebootingRequesting_def
  handleTimerChecking_def renew_rebind_transition_def renew_timer_rel_sec_def
  renew_send_request_def handleTimerBoundRenewingRebinding_def timerHandler_def
  retrySending_def ifaceStateChanged_def arpInfoReceived_def process_offer_def
  update_lease_info_def process_ack_def processReceivedDhcpMessage_def
  udpIp4PacketReceived_def IpDhcpClient_construct_def hasLease_def
  SecToTicks_def SecToTicksNoAssert_def TicksToSec_def MaxTimerSeconds_def
  BootRequest_def BootReply_def DhcpHwAddrType_Ethernet_def MacAddr_Size_def
  DhcpMagic_def DhcpHeaderSize_def DhcpServerPort_def DhcpClientPort_def
  DhcpSendOptions_default_def DeclineMessageArpResponse_def

lemmas ack_defs =
  checkAndFixupAck_def ack_default_subnet_mask_def ack_ignore_bad_router_def
  ack_fixup_renewal_time_def ack_fixup_rebinding_time_def DefaultRenewTimeForLeaseTime_def
  DefaultRebindingTimeForLeaseTime_def

lemmas example_defs =
  example_Params_def example_raw_def example_init_def example_client_def
  example_offer_def example_ack_def example_nak_def example_ack_options_def
  example_requesting_def example_checking_def example_bound_def example_renewing_def

lemmas eval_defs = example_defs machine_defs prim_defs ack_defs Ip4Addr_defs Let_def

lemma AIPSTACK_ASSERT_True [simp]: "AIPSTACK_ASSERT True st = st"
  by (simp add: AIPSTACK_ASSERT_def)

subsection \<open>The retransmission timeout\<close>

lemma unat_double_rtx_timeout:
  "unat (m_rtx_timeout (double_rtx_timeout P st)) =
     min (2 * unat (m_rtx_timeout st)) (unat (MaxRtxTimeoutSeconds P))"
proof -
  let ?t = "m_rtx_timeout st" and ?M = "MaxRtxTimeoutSeconds P"
  have M: "unat ?M < 256" by (rule unat_u8_bound)
  have d: "unat (?M div 2) = unat ?M div 2" by (simp add: unat_div)
  show ?thesis
  proof (cases "?t > ?M div 2")
    case True
    then have "unat ?M div 2 < unat ?t" by (simp add: word_less_nat_alt d)
    then have "unat ?M < 2 * unat ?t" by arith
    then show ?thesis using True by (simp add: double_rtx_timeout_def min_def)
  next
    case False
    then have le: "unat ?t \<le> unat ?M div 2" by (simp add: word_less_nat_alt d not_less)
    then have "unat (2 :: u8) * unat ?t < 2 ^ LENGTH(8)" using M by simp
    then have "unat (2 * ?t) = 2 * unat ?t"
      by (simp add: unat_mult_lem [THEN iffD1])
    then show ?thesis using False le by (simp add: double_rtx_timeout_def min_def)
  qed
qed

lemma double_rtx_timeout_mono:
  assumes "m_rtx_timeout st \<le> MaxRtxTimeoutSeconds P"
  shows "m_rtx_timeout st \<le> m_rtx_timeout (double_rtx_timeout P st) \<and>
         m_rtx_timeout (double_rtx_timeout P st) \<le> MaxRtxTimeoutSeconds P"
  using assms unat_double_rtx_timeout [of P st]
  by (simp add: word_le_nat_alt)

lemma rtx_timeout_after_Suc:
  "rtx_timeout_after P st (Suc n) =
     m_rtx_timeout (double_rtx_timeout P ((double_rtx_timeout P ^^ n) (reset_rtx_timeout P st)))"
  by (simp add: rtx_timeout_after_def)

lemma rtx_timeout_after_rec:
  "rtx_timeout_after P st 0 = BaseRtxTimeoutSeconds P"
  "rtx_timeout_after P st (Suc n) =
     (if rtx_timeout_after P st n > MaxRtxTimeoutSeconds P div 2
        then MaxRtxTimeoutSeconds P else 2 * rtx_timeout_after P st n)"
  by (simp_all add: rtx_timeout_after_def reset_rtx_timeout_def double_rtx_timeout_def)

lemma rtx_timeout_after_numeral:
  "rtx_timeout_after P st (numeral k) =
     (if rtx_timeout_after P st (pred_numeral k) > MaxRtxTimeoutSeconds P div 2
        then MaxRtxTimeoutSeconds P else 2 * rtx_timeout_after P st (pred_numeral k))"
  by (simp add: numeral_eq_Suc rtx_timeout_after_rec)

lemma rtx_timeout_after_bounds:
  assumes "BaseRtxTimeoutSeconds P \<le> MaxRtxTimeoutSeconds P"
  shows "BaseRtxTimeoutSeconds P \<le> rtx_timeout_after P st n \<and>
         rtx_timeout_after P st n \<le> MaxRtxTimeoutSeconds P"
proof (induction n)
  case 0
  then show ?case using assms by (simp add: rtx_timeout_after_def reset_rtx_timeout_def)
next
  case (Suc n)
  then show ?case
    using double_rtx_timeout_mono [of "(double_rtx_timeout P ^^ n) (reset_rtx_timeout P st)" P]
    unfolding rtx_timeout_after_Suc
    by (auto simp: rtx_timeout_after_def)
qed

lemma rtx_timeout_after_mono:
  assumes "BaseRtxTimeoutSeconds P \<le> MaxRtxTimeoutSeconds P"
  shows "rtx_timeout_after P st n \<le> rtx_timeout_after P st (Suc n)"
  using rtx_timeout_after_bounds [OF assms, of st n]
    double_rtx_timeout_mono [of "(double_rtx_timeout P ^^ n) (reset_rtx_timeout P st)" P]
  unfolding rtx_timeout_after_Suc
  by (simp add: rtx_timeout_after_def)

lemma rtx_timeout_of_handlers:
  "m_rtx_timeout (start_discovery_or_rebooting P now st) = BaseRtxTimeoutSeconds P"
  "m_rtx_timeout (process_offer P now addr opts st) = BaseRtxTimeoutSeconds P"
  "m_rtx_timeout (handleTimerSelecting P now st) = m_rtx_timeout (double_rtx_timeout P st)"
  "m_timer_time (handleTimerSelecting P now st) =
     now + SecToTicks P (ucast (m_rtx_timeout (double_rtx_timeout P st)))"
  by (simp_all add: start_discovery_or_rebooting_def process_offer_def
        handleTimerSelecting_def prim_defs Let_def)

lemma rtx_timeout_of_request_handler:
  assumes "\<not> (if m_state st = Rebooting then MaxRebootRequests P else MaxRequests P)
             \<le> m_request_count st"
  shows "m_rtx_timeout (handleTimerRebootingRequesting P now st)
           = m_rtx_timeout (double_rtx_timeout P st)"
    and "m_timer_time (handleTimerRebootingRequesting P now st) =
           now + SecToTicks P (ucast (m_rtx_timeout (double_rtx_timeout P st)))"
  using assms
  by (simp_all add: handleTimerRebootingRequesting_def prim_defs Let_def)

lemma rtx_timeout_at_entry:
  "m_state (start_discovery_or_rebooting P now st)
     = (if isZero (ip_address (m_info st)) then Selecting else Rebooting)"
  "m_timer_set (start_discovery_or_rebooting P now st)"
  "m_timer_time (start_discovery_or_rebooting P now st)
     = now + SecToTicks P (ucast (BaseRtxTimeoutSeconds P))"
  "m_state (start_discovery P now st) = Selecting"
  "m_rtx_timeout (start_discovery P now st) = BaseRtxTimeoutSeconds P"
  "m_timer_set (start_discovery P now st)"
  "m_timer_time (start_discovery P now st)
     = now + SecToTicks P (ucast (BaseRtxTimeoutSeconds P))"
  "m_state (process_offer P now addr opts st) = Requesting"
  "m_timer_set (process_offer P now addr opts st)"
  "m_timer_time (process_offer P now addr opts st)
     = now + SecToTicks P (ucast (BaseRtxTimeoutSeconds P))"
  by (simp_all add: start_discovery_def start_discovery_or_rebooting_def process_offer_def
        prim_defs Let_def isZero_def ZeroAddr_def)

lemma rtx_timeout_funpow_cong:
  "m_rtx_timeout a = m_rtx_timeout b \<Longrightarrow>
   m_rtx_timeout ((double_rtx_timeout P ^^ n) a) = m_rtx_timeout ((double_rtx_timeout P ^^ n) b)"
  by (induction n) (simp_all add: double_rtx_timeout_def)

lemma rtx_timeout_selecting_timers:
  "m_rtx_timeout (selecting_timers P s nows)
     = m_rtx_timeout ((double_rtx_timeout P ^^ length nows) s)"
proof (induction nows arbitrary: s)
  case Nil
  then show ?case by simp
next
  case (Cons now nows)
  have "m_rtx_timeout (selecting_timers P (handleTimerSelecting P now s) nows)
      = m_rtx_timeout ((double_rtx_timeout P ^^ length nows) (handleTimerSelecting P now s))"
    by (rule Cons.IH)
  also have "\<dots> = m_rtx_timeout ((double_rtx_timeout P ^^ length nows) (double_rtx_timeout P s))"
    by (rule rtx_timeout_funpow_cong) (simp add: rtx_timeout_of_handlers)
  finally show ?case by (simp add: funpow_swap1)
qed

lemma selecting_timers_append:
  "selecting_timers P s (nows @ [now]) = handleTimerSelecting P now (selecting_timers P s nows)"
  by (induction nows arbitrary: s) simp_all

lemma rtx_timeout_selecting_run:
  "m_rtx_timeout (selecting_timers P (start_discovery P now0 st) nows)
     = rtx_timeout_after P st (length nows)"
  "m_timer_time (selecting_timers P (start_discovery P now0 st) (nows @ [now]))
     = now + SecToTicks P (ucast (rtx_timeout_after P st (Suc (length nows))))"
proof -
  have e: "m_rtx_timeout (start_discovery P now0 st) = m_rtx_timeout (reset_rtx_timeout P st)"
    by (simp add: rtx_timeout_at_entry reset_rtx_timeout_def)
  show a: "m_rtx_timeout (selecting_timers P (start_discovery P now0 st) nows)
     = rtx_timeout_after P st (length nows)" for nows
    unfolding rtx_timeout_selecting_timers rtx_timeout_after_def
    by (rule rtx_timeout_funpow_cong [OF e])
  have "m_rtx_timeout (selecting_timers P (start_discovery P now0 st) (nows @ [now]))
     = rtx_timeout_after P st (Suc (length nows))"
    using a [of "nows @ [now]"] by simp
  then show "m_timer_time (selecting_timers P (start_discovery P now0 st) (nows @ [now]))
     = now + SecToTicks P (ucast (rtx_timeout_after P st (Suc (length nows))))"
    by (simp add: selecting_timers_append rtx_timeout_of_handlers)
qed

text \<open>
  Claim C6. \<open>double_rtx_timeout\<close> turns a timeout \<open>t\<close> between
  \<open>BaseRtxTimeoutSeconds\<close> and \<open>MaxRtxTimeoutSeconds\<close> into
  \<open>min (2 * t) MaxRtxTimeoutSeconds\<close>. The timeout after \<open>n\<close> retransmissions starts at
  \<open>BaseRtxTimeoutSeconds\<close>, never decreases and never exceeds \<open>MaxRtxTimeoutSeconds\<close>.
  This is the timeout of SELECTING, REQUESTING and REBOOTING. These states are entered
  with the base timeout and with the timer armed for it, \<open>BaseRtxTimeoutSeconds\<close> after
  the time of entry: SELECTING or REBOOTING by \<open>start_discovery_or_rebooting\<close>, SELECTING
  by \<open>start_discovery\<close>, REQUESTING by the accepted offer. Every retransmission in them
  doubles the timeout and arms the timer for the result. So after discovery has started
  and the timer has fired \<open>n\<close> times in SELECTING, the timeout is the one after \<open>n\<close>
  retransmissions, and the timer is armed for it from the time of the last one.
\<close>

theorem rtx_timeout_backoff:
  assumes "BaseRtxTimeoutSeconds P \<le> MaxRtxTimeoutSeconds P"
  shows "(BaseRtxTimeoutSeconds P \<le> m_rtx_timeout st \<and>
          m_rtx_timeout st \<le> MaxRtxTimeoutSeconds P \<longrightarrow>
            unat (m_rtx_timeout (double_rtx_timeout P st)) =
              min (2 * unat (m_rtx_timeout st)) (unat (MaxRtxTimeoutSeconds P))) \<and>
         rtx_timeout_after P st 0 = BaseRtxTimeoutSeconds P \<and>
         (\<forall>n. BaseRtxTimeoutSeconds P \<le> rtx_timeout_after P st n \<and>
              rtx_timeout_after P st n \<le> rtx_timeout_after P st (Suc n) \<and>
              rtx_timeout_after P st n \<le> MaxRtxTimeoutSeconds P) \<and>
         m_rtx_timeout (start_discovery_or_rebooting P now st) = BaseRtxTimeoutSeconds P \<and>
         m_rtx_timeout (process_offer P now addr opts st) = BaseRtxTimeoutSeconds P \<and>
         m_rtx_timeout (handleTimerSelecting P now st)
           = m_rtx_timeout (double_rtx_timeout P st) \<and>
         m_timer_time (handleTimerSelecting P now st)
           = now + SecToTicks P (ucast (m_rtx_timeout (double_rtx_timeout P st))) \<and>
         (\<not> (if m_state st = Rebooting then MaxRebootRequests P else MaxRequests P)
              \<le> m_request_count st \<longrightarrow>
            m_rtx_timeout (handleTimerRebootingRequesting P now st)
              = m_rtx_timeout (double_rtx_timeout P st) \<and>
            m_timer_time (handleTimerRebootingRequesting P now st)
              = now + SecToTicks P (ucast (m_rtx_timeout (double_rtx_timeout P st)))) \<and>
         m_state (start_discovery_or_rebooting P now st)
           = (if isZero (ip_address (m_info st)) then Selecting else Rebooting) \<and>
         m_timer_set (start_discovery_or_rebooting P now st) \<and>
         m_timer_time (start_discovery_or_rebooting P now st)
           = now + SecToTicks P (ucast (BaseRtxTimeoutSeconds P)) \<and>
         m_state (start_discovery P now st) = Selecting \<and>
         m_rtx_timeout (start_discovery P now st) = BaseRtxTimeoutSeconds P \<and>
         m_timer_set (start_discovery P now st) \<and>
         m_timer_time (start_discovery P now st)
           = now + SecToTicks P (ucast (BaseRtxTimeoutSeconds P)) \<and>
         m_state (process_offer P now addr opts st) = Requesting \<and>
         m_timer_set (process_offer P now addr opts st) \<and>
         m_timer_time (process_offer P now addr opts st)
           = now + SecToTicks P (ucast (BaseRtxTimeoutSeconds P)) \<and>
         m_timer_set (handleTimerSelecting P now st) \<and>
         m_timer_set (handleTimerRebootingRequesting P now st) \<and>
         m_rtx_timeout (selecting_timers P (start_discovery P now st) nows)
           = rtx_timeout_after P st (length nows) \<and>
         m_timer_time (selecting_timers P (start_discovery P now st) (nows @ [now']))
           = now' + SecToTicks P (ucast (rtx_timeout_after P st (Suc (length nows))))"
proof -
  have s: "m_timer_set (handleTimerSelecting P now st)"
    "m_timer_set (handleTimerRebootingRequesting P now st)"
    by (simp_all add: handleTimerSelecting_def handleTimerRebootingRequesting_def
          rtx_timeout_at_entry prim_defs Let_def)
  show ?thesis
    using rtx_timeout_after_bounds [OF assms, of st] rtx_timeout_after_mono [OF assms, of st]
      rtx_timeout_of_request_handler [of st P now]
    by (simp add: unat_double_rtx_timeout rtx_timeout_of_handlers rtx_timeout_at_entry s
          rtx_timeout_selecting_run rtx_timeout_after_rec(1))
qed

theorem rtx_timeout_backoff_witness:
  "BaseRtxTimeoutSeconds example_Params \<le> MaxRtxTimeoutSeconds example_Params \<and>
   BaseRtxTimeoutSeconds example_Params \<le> m_rtx_timeout example_client \<and>
   m_rtx_timeout example_client \<le> MaxRtxTimeoutSeconds example_Params \<and>
   m_rtx_timeout example_client = 3 \<and>
   unat (m_rtx_timeout (double_rtx_timeout example_Params example_client)) = 6 \<and>
   rtx_timeout_after example_Params example_client 0 = 3 \<and>
   rtx_timeout_after example_Params example_client 4 = 48 \<and>
   rtx_timeout_after example_Params example_client 5 = 64 \<and>
   rtx_timeout_after example_Params example_client 6 = 64 \<and>
   \<not> (if m_state example_requesting = Rebooting then MaxRebootRequests example_Params
       else MaxRequests example_Params) \<le> m_request_count example_requesting \<and>
   m_state (start_discovery example_Params 26000 example_client) = Selecting \<and>
   m_timer_set (start_discovery example_Params 26000 example_client) \<and>
   m_timer_time (start_discovery example_Params 26000 example_client) = 29000 \<and>
   m_timer_time (process_offer example_Params 26000 (Ip4Addr_of 192 0 2 10)
                   example_ack_options example_client) = 29000 \<and>
   m_timer_time (handleTimerSelecting example_Params 26000 example_client) = 32000 \<and>
   m_rtx_timeout (selecting_timers example_Params
                    (start_discovery example_Params 26000 example_client) [29000, 35000]) = 12 \<and>
   m_timer_time (selecting_timers example_Params
                   (start_discovery example_Params 26000 example_client) [29000, 35000]) = 47000"
proof -
  have h: "BaseRtxTimeoutSeconds example_Params \<le> MaxRtxTimeoutSeconds example_Params"
    by (simp add: example_Params_def)
  have c: "m_rtx_timeout example_client = 3"
    by (simp add: eval_defs)
  have r: "\<not> (if m_state example_requesting = Rebooting then MaxRebootRequests example_Params
       else MaxRequests example_Params) \<le> m_request_count example_requesting"
    by (simp add: eval_defs word_le_nat_alt)
  have e: "rtx_timeout_after example_Params example_client 4 = 48"
    "rtx_timeout_after example_Params example_client 5 = 64"
    "rtx_timeout_after example_Params example_client 6 = 64"
    "rtx_timeout_after example_Params example_client (Suc 0) = 6"
    "rtx_timeout_after example_Params example_client (Suc (Suc 0)) = 12"
    by (simp_all add: rtx_timeout_after_numeral rtx_timeout_after_rec example_Params_def
          word_less_nat_alt unat_div)
  have d: "m_rtx_timeout (double_rtx_timeout example_Params example_client) = 6"
    by (simp add: double_rtx_timeout_def c example_Params_def word_less_nat_alt unat_div)
  have t: "SecToTicks example_Params 3 = 3000" "SecToTicks example_Params 6 = 6000"
    "SecToTicks example_Params 12 = 12000"
    by (simp_all add: SecToTicks_def SecToTicksNoAssert_def example_Params_def)
  have b: "BaseRtxTimeoutSeconds example_Params = 3"
    by (simp add: example_Params_def)
  show ?thesis
    using rtx_timeout_backoff [OF h, of example_client 26000 "Ip4Addr_of 192 0 2 10"
        example_ack_options "[29000, 35000]" 0]
      rtx_timeout_backoff [OF h, of example_client 26000 "Ip4Addr_of 192 0 2 10"
        example_ack_options "[29000]" 35000]
    by (simp add: c e r d t b) (simp add: example_Params_def)
qed

subsection \<open>What the functions leave unchanged\<close>

lemma handle_dhcp_down_fields:
  "m_state (handle_dhcp_down c l st) = m_state st"
  "m_info (handle_dhcp_down c l st) = m_info st"
  "m_lease_time_passed (handle_dhcp_down c l st) = m_lease_time_passed st"
  "m_xid (handle_dhcp_down c l st) = m_xid st"
  "m_request_count (handle_dhcp_down c l st) = m_request_count st"
  "m_rtx_timeout (handle_dhcp_down c l st) = m_rtx_timeout st"
  "m_arp_observer (handle_dhcp_down c l st) = m_arp_observer st"
  "m_handler (handle_dhcp_down c l st) = m_handler st"
  "m_timer_set (handle_dhcp_down c l st) = m_timer_set st"
  "m_timer_time (handle_dhcp_down c l st) = m_timer_time st"
  "m_request_send_time (handle_dhcp_down c l st) = m_request_send_time st"
  "m_request_send_time_passed (handle_dhcp_down c l st) = m_request_send_time_passed st"
  "assert_failed (handle_dhcp_down c l st) = assert_failed st"
  by (simp_all add: prim_defs)

lemma send_request_fields:
  "m_state (send_request P st) = m_state st"
  "m_info (send_request P st) = m_info st"
  "m_lease_time_passed (send_request P st) = m_lease_time_passed st"
  "m_xid (send_request P st) = m_xid st"
  "m_request_count (send_request P st) = m_request_count st"
  "m_rtx_timeout (send_request P st) = m_rtx_timeout st"
  "m_arp_observer (send_request P st) = m_arp_observer st"
  "m_handler (send_request P st) = m_handler st"
  "m_timer_set (send_request P st) = m_timer_set st"
  "m_timer_time (send_request P st) = m_timer_time st"
  "m_request_send_time (send_request P st) = m_request_send_time st"
  "m_request_send_time_passed (send_request P st) = m_request_send_time_passed st"
  by (simp_all add: prim_defs Let_def)

lemma send_request_effects:
  "\<exists>m. effects (send_request P st) = effects st @ [SendUdpIp4Packet m] \<and>
       sent_msg_type m = Request \<and> sent_DhcpXid m = m_xid st \<and>
       sent_dst_addr m =
         (if m_state st = Renewing then dhcp_server_addr (m_info st) else AllOnesAddr)"
  by (simp add: prim_defs Let_def)

lemma start_discovery_or_rebooting_fields:
  "m_state (start_discovery_or_rebooting P now st) =
     (if isZero (ip_address (m_info st)) then Selecting else Rebooting)"
  "m_info (start_discovery_or_rebooting P now st) = m_info st"
  "m_lease_time_passed (start_discovery_or_rebooting P now st) = m_lease_time_passed st"
  "m_xid (start_discovery_or_rebooting P now st) = ucast now"
  "m_request_count (start_discovery_or_rebooting P now st) = 1"
  "m_arp_observer (start_discovery_or_rebooting P now st) = m_arp_observer st"
  "m_handler (start_discovery_or_rebooting P now st) = m_handler st"
  "m_timer_set (start_discovery_or_rebooting P now st)"
  "m_timer_time (start_discovery_or_rebooting P now st) =
      now + SecToTicks P (ucast (BaseRtxTimeoutSeconds P))"
  by (simp_all add: start_discovery_or_rebooting_def prim_defs Let_def)

lemma start_discovery_fields:
  "m_state (start_discovery P now st) = Selecting"
  "m_lease_time_passed (start_discovery P now st) = m_lease_time_passed st"
  "m_xid (start_discovery P now st) = ucast now"
  "m_request_count (start_discovery P now st) = 1"
  "m_arp_observer (start_discovery P now st) = m_arp_observer st"
  "m_handler (start_discovery P now st) = m_handler st"
  "m_timer_set (start_discovery P now st)"
  "m_timer_time (start_discovery P now st) =
      now + SecToTicks P (ucast (BaseRtxTimeoutSeconds P))"
  by (simp_all add: start_discovery_def start_discovery_or_rebooting_fields isZero_def)

lemma start_discovery_effects:
  "\<exists>m. effects (start_discovery P now st) = effects st @ [SendUdpIp4Packet m] \<and>
       sent_msg_type m = Discover \<and> sent_DhcpXid m = ucast now"
  by (simp add: start_discovery_def start_discovery_or_rebooting_def prim_defs Let_def
        isZero_def)

lemma go_resetting_False:
  "\<not> hasLease st \<Longrightarrow> go_resetting P now False st =
     st\<lparr>m_state := Resetting,
        assert_failed :=
          assert_failed st \<or> \<not> ucast (ResetTimeoutSeconds P) \<le> MaxTimerSeconds P,
        m_timer_set := True,
        m_timer_time := now + SecToTicks P (ucast (ResetTimeoutSeconds P))\<rparr>"
  by (simp add: go_resetting_def prim_defs Let_def)

lemma go_resetting_True_fields:
  "m_state (go_resetting P now True st) = Selecting"
  "m_timer_set (go_resetting P now True st)"
  "m_timer_time (go_resetting P now True st)
     = now + SecToTicks P (ucast (BaseRtxTimeoutSeconds P))"
  "m_xid (go_resetting P now True st) = ucast now"
  by (simp_all add: go_resetting_def Let_def handle_dhcp_down_fields start_discovery_fields)

lemma go_resetting_True_effects:
  "\<exists>m. effects (go_resetting P now True st) =
      effects st @ [SendUdpIp4Packet m] @
        (if hasLease st then [SetIp4Gateway None, SetIp4Addr None] @
            (if m_handler st then [Handler LeaseLost] else []) else []) \<and>
       sent_msg_type m = Discover \<and> sent_DhcpXid m = ucast now"
  using start_discovery_effects [of P now st]
  by (auto simp add: go_resetting_def Let_def handle_dhcp_down_def emit_def
        start_discovery_fields)

subsection \<open>Messages that are not for this client\<close>

text \<open>
  Claim C7. A received message whose XID is not the client's \<open>m_xid\<close>, whose chaddr
  is not the interface's MAC address, or whose op, htype, hlen or magic cookie is
  wrong, leaves the client as it was: no member variable changes, the timer and the
  ARP subscription stay as they are, nothing is sent or configured. This holds in
  every state and for every message type, an OFFER or an ACK among them.
\<close>

theorem foreign_message_ignored:
  assumes "msg_DhcpXid msg \<noteq> m_xid st \<or> msg_DhcpChaddr msg \<noteq> iface_MacAddr P \<or>
           msg_DhcpOp msg \<noteq> BootReply \<or> msg_DhcpHtype msg \<noteq> DhcpHwAddrType_Ethernet \<or>
           msg_DhcpHlen msg \<noteq> MacAddr_Size \<or> msg_DhcpMagic msg \<noteq> DhcpMagic"
  shows "processReceivedDhcpMessage P now src_addr rx_src_mac msg st = st \<and>
         udpIp4PacketReceived P now src_port unicast_src src_addr rx_src_mac msg st = st \<and>
         step P (UdpIp4PacketReceived now src_port unicast_src src_addr rx_src_mac msg) st = st"
  using assms
  by (auto simp: processReceivedDhcpMessage_def udpIp4PacketReceived_def)

theorem foreign_message_ignored_witness:
  "msg_DhcpXid (example_ack\<lparr>msg_DhcpXid := 4999\<rparr>) \<noteq> m_xid example_requesting \<and>
   m_state example_requesting = Requesting \<and>
   processReceivedDhcpMessage example_Params 6100 (Ip4Addr_of 192 0 2 1) 0x02AAAAAAAAAA
     (example_ack\<lparr>msg_DhcpXid := 4999\<rparr>) example_requesting = example_requesting \<and>
   m_state (processReceivedDhcpMessage example_Params 6100 (Ip4Addr_of 192 0 2 1)
     0x02AAAAAAAAAA example_ack example_requesting) = Checking"
proof -
  have h: "msg_DhcpXid (example_ack\<lparr>msg_DhcpXid := 4999\<rparr>) \<noteq> m_xid example_requesting"
    by (simp add: eval_defs)
  have s: "m_state example_requesting = Requesting"
    by (simp add: eval_defs)
  have c: "m_state (processReceivedDhcpMessage example_Params 6100 (Ip4Addr_of 192 0 2 1)
     0x02AAAAAAAAAA example_ack example_requesting) = Checking"
    by (simp add: eval_defs)
  show ?thesis
    using foreign_message_ignored [of "example_ack\<lparr>msg_DhcpXid := 4999\<rparr>"
        example_requesting example_Params 6100 "Ip4Addr_of 192 0 2 1" "0x02AAAAAAAAAA" 67 True]
      h s c
    by simp
qed

subsection \<open>An ARP response in CHECKING\<close>

text \<open>
  Claim C8. In CHECKING, an ARP message from the address being checked makes the
  client send one message, a DECLINE with the stored server identifier, the checked
  address as the requested IP address and the text "ArpResponse", and nothing else;
  the ARP observer is unsubscribed, the state becomes RESETTING and the timer is armed
  to expire \<open>ResetTimeoutSeconds\<close> from now. An ARP message from any other address
  changes nothing.
\<close>

theorem arp_response_declines:
  assumes "m_state st = Checking"
  shows "(ip_addr = ip_address (m_info st) \<longrightarrow>
           (\<exists>m. effects (arpInfoReceived P now ip_addr mac_addr st)
                  = effects st @ [SendUdpIp4Packet m] \<and>
                sent_msg_type m = Decline \<and>
                sent_DhcpXid m = m_xid st \<and>
                send_have_dhcp_server_identifier (sent_opts m) \<and>
                send_dhcp_server_identifier (sent_opts m)
                  = dhcp_server_identifier (m_info st) \<and>
                send_have_requested_ip_address (sent_opts m) \<and>
                send_requested_ip_address (sent_opts m) = ip_address (m_info st) \<and>
                send_have_message (sent_opts m) \<and>
                send_message (sent_opts m) = ''ArpResponse'') \<and>
           \<not> m_arp_observer (arpInfoReceived P now ip_addr mac_addr st) \<and>
           m_state (arpInfoReceived P now ip_addr mac_addr st) = Resetting \<and>
           m_timer_set (arpInfoReceived P now ip_addr mac_addr st) \<and>
           m_timer_time (arpInfoReceived P now ip_addr mac_addr st)
             = now + SecToTicks P (ucast (ResetTimeoutSeconds P))) \<and>
         (ip_addr \<noteq> ip_address (m_info st) \<longrightarrow>
           arpInfoReceived P now ip_addr mac_addr st = st)"
  using assms
  by (simp add: arpInfoReceived_def Let_def go_resetting_False hasLease_def prim_defs
        DeclineMessageArpResponse_def DhcpSendOptions_default_def)

theorem arp_response_declines_witness:
  "m_state example_checking = Checking \<and>
   Ip4Addr_of 192 0 2 10 = ip_address (m_info example_checking) \<and>
   m_arp_observer example_checking \<and>
   \<not> m_arp_observer (arpInfoReceived example_Params 6200 (Ip4Addr_of 192 0 2 10)
        0x02BBBBBBBBBB example_checking) \<and>
   m_state (arpInfoReceived example_Params 6200 (Ip4Addr_of 192 0 2 10)
        0x02BBBBBBBBBB example_checking) = Resetting \<and>
   m_timer_time (arpInfoReceived example_Params 6200 (Ip4Addr_of 192 0 2 10)
        0x02BBBBBBBBBB example_checking) = 9200 \<and>
   Ip4Addr_of 192 0 2 11 \<noteq> ip_address (m_info example_checking) \<and>
   arpInfoReceived example_Params 6200 (Ip4Addr_of 192 0 2 11) 0x02BBBBBBBBBB
     example_checking = example_checking"
proof -
  have h: "m_state example_checking = Checking"
    by (simp add: eval_defs)
  have a: "Ip4Addr_of 192 0 2 10 = ip_address (m_info example_checking)"
    "Ip4Addr_of 192 0 2 11 \<noteq> ip_address (m_info example_checking)"
    "m_arp_observer example_checking"
    by (simp_all add: eval_defs)
  have t: "(6200 :: 32 word) + SecToTicks example_Params (ucast (ResetTimeoutSeconds example_Params))
             = 9200"
    by (simp add: SecToTicks_def SecToTicksNoAssert_def example_Params_def)
  show ?thesis
    using arp_response_declines [OF h, of "Ip4Addr_of 192 0 2 10" example_Params 6200
        "0x02BBBBBBBBBB"]
      arp_response_declines [OF h, of "Ip4Addr_of 192 0 2 11" example_Params 6200
        "0x02BBBBBBBBBB"]
      h a t
    by simp
qed

subsection \<open>A NAK\<close>

text \<open>
  Claim C4. A NAK changes the client only in REQUESTING, RENEWING, REBINDING and
  REBOOTING: in every other state it is dropped. In REQUESTING a NAK whose server
  identifier is not the stored one is dropped; one that passed the checks of the header
  and has the stored server identifier puts the client into RESETTING, with the timer
  armed to expire \<open>ResetTimeoutSeconds\<close> from now and nothing sent. In RENEWING,
  REBINDING and REBOOTING such a NAK restarts discovery at once: the state becomes
  SELECTING, a DISCOVER with a new XID is sent and the timer is armed for the base
  retransmission timeout; a lease the client had is removed from the interface and
  reported lost.
\<close>

theorem nak_handling:
  assumes "msg_parseOptions msg = Some opts" and "recv_dhcp_message_type opts = Nak"
  shows
   "(m_state st \<noteq> Requesting \<and> m_state st \<noteq> Renewing \<and> m_state st \<noteq> Rebinding \<and>
     m_state st \<noteq> Rebooting \<longrightarrow>
       processReceivedDhcpMessage P now src_addr rx_src_mac msg st = st) \<and>
    (m_state st = Requesting \<and>
     recv_dhcp_server_identifier opts \<noteq> dhcp_server_identifier (m_info st) \<longrightarrow>
       processReceivedDhcpMessage P now src_addr rx_src_mac msg st = st) \<and>
    (DhcpHeaderSize \<le> msg_tot_len msg \<and> msg_hasHeader msg \<and>
     msg_DhcpOp msg = BootReply \<and> msg_DhcpHtype msg = DhcpHwAddrType_Ethernet \<and>
     msg_DhcpHlen msg = MacAddr_Size \<and> msg_DhcpXid msg = m_xid st \<and>
     msg_DhcpChaddr msg = iface_MacAddr P \<and> msg_DhcpMagic msg = DhcpMagic \<and>
     recv_have_dhcp_message_type opts \<and> recv_have_dhcp_server_identifier opts \<longrightarrow>
       (m_state st = Requesting \<and>
        recv_dhcp_server_identifier opts = dhcp_server_identifier (m_info st) \<longrightarrow>
          m_state (processReceivedDhcpMessage P now src_addr rx_src_mac msg st) = Resetting \<and>
          m_timer_set (processReceivedDhcpMessage P now src_addr rx_src_mac msg st) \<and>
          m_timer_time (processReceivedDhcpMessage P now src_addr rx_src_mac msg st)
            = now + SecToTicks P (ucast (ResetTimeoutSeconds P)) \<and>
          effects (processReceivedDhcpMessage P now src_addr rx_src_mac msg st)
            = effects st) \<and>
       (m_state st = Renewing \<or> m_state st = Rebinding \<or> m_state st = Rebooting \<longrightarrow>
          m_state (processReceivedDhcpMessage P now src_addr rx_src_mac msg st) = Selecting \<and>
          m_timer_set (processReceivedDhcpMessage P now src_addr rx_src_mac msg st) \<and>
          m_timer_time (processReceivedDhcpMessage P now src_addr rx_src_mac msg st)
            = now + SecToTicks P (ucast (BaseRtxTimeoutSeconds P)) \<and>
          (\<exists>m. effects (processReceivedDhcpMessage P now src_addr rx_src_mac msg st) =
             effects st @ [SendUdpIp4Packet m] @
               (if hasLease st then [SetIp4Gateway None, SetIp4Addr None] @
                  (if m_handler st then [Handler LeaseLost] else []) else []) \<and>
             sent_msg_type m = Discover \<and> sent_DhcpXid m = ucast now)))"
proof -
  have 1: "m_state st \<noteq> Requesting \<and> m_state st \<noteq> Renewing \<and> m_state st \<noteq> Rebinding \<and>
     m_state st \<noteq> Rebooting \<longrightarrow>
       processReceivedDhcpMessage P now src_addr rx_src_mac msg st = st"
    using assms by (simp add: processReceivedDhcpMessage_def)
  have 2: "m_state st = Requesting \<and>
     recv_dhcp_server_identifier opts \<noteq> dhcp_server_identifier (m_info st) \<longrightarrow>
       processReceivedDhcpMessage P now src_addr rx_src_mac msg st = st"
    using assms by (simp add: processReceivedDhcpMessage_def)
  have 3: "processReceivedDhcpMessage P now src_addr rx_src_mac msg st
             = go_resetting P now False st"
    if "DhcpHeaderSize \<le> msg_tot_len msg" "msg_hasHeader msg"
     "msg_DhcpOp msg = BootReply" "msg_DhcpHtype msg = DhcpHwAddrType_Ethernet"
     "msg_DhcpHlen msg = MacAddr_Size" "msg_DhcpXid msg = m_xid st"
     "msg_DhcpChaddr msg = iface_MacAddr P" "msg_DhcpMagic msg = DhcpMagic"
     "recv_have_dhcp_message_type opts" "recv_have_dhcp_server_identifier opts"
     "m_state st = Requesting"
     "recv_dhcp_server_identifier opts = dhcp_server_identifier (m_info st)"
    using assms that by (simp add: processReceivedDhcpMessage_def)
  have 4: "processReceivedDhcpMessage P now src_addr rx_src_mac msg st
             = go_resetting P now True st"
    if "DhcpHeaderSize \<le> msg_tot_len msg" "msg_hasHeader msg"
     "msg_DhcpOp msg = BootReply" "msg_DhcpHtype msg = DhcpHwAddrType_Ethernet"
     "msg_DhcpHlen msg = MacAddr_Size" "msg_DhcpXid msg = m_xid st"
     "msg_DhcpChaddr msg = iface_MacAddr P" "msg_DhcpMagic msg = DhcpMagic"
     "recv_have_dhcp_message_type opts" "recv_have_dhcp_server_identifier opts"
     "m_state st = Renewing \<or> m_state st = Rebinding \<or> m_state st = Rebooting"
    using assms that by (auto simp add: processReceivedDhcpMessage_def)
  have 5: "\<not> hasLease st" if "m_state st = Requesting"
    using that by (simp add: hasLease_def)
  show ?thesis
    using 1 2 go_resetting_True_effects [of P now st]
    by (auto simp add: 3 4 go_resetting_False [OF 5] go_resetting_True_fields)
qed

theorem nak_handling_witness:
  "msg_parseOptions example_nak = Some (example_ack_options\<lparr>recv_dhcp_message_type := Nak\<rparr>) \<and>
   recv_dhcp_message_type (example_ack_options\<lparr>recv_dhcp_message_type := Nak\<rparr>) = Nak \<and>
   m_state example_requesting = Requesting \<and>
   m_state (processReceivedDhcpMessage example_Params 6100 (Ip4Addr_of 192 0 2 1)
              0x02AAAAAAAAAA example_nak example_requesting) = Resetting \<and>
   m_timer_time (processReceivedDhcpMessage example_Params 6100 (Ip4Addr_of 192 0 2 1)
              0x02AAAAAAAAAA example_nak example_requesting) = 9100 \<and>
   m_state example_renewing = Renewing \<and>
   m_state (processReceivedDhcpMessage example_Params 1806500 (Ip4Addr_of 192 0 2 1)
              0x02AAAAAAAAAA (example_nak\<lparr>msg_DhcpXid := 1806000\<rparr>) example_renewing)
     = Selecting \<and>
   m_timer_time (processReceivedDhcpMessage example_Params 1806500 (Ip4Addr_of 192 0 2 1)
              0x02AAAAAAAAAA (example_nak\<lparr>msg_DhcpXid := 1806000\<rparr>) example_renewing)
     = 1809500 \<and>
   m_state example_checking = Checking \<and>
   processReceivedDhcpMessage example_Params 6200 (Ip4Addr_of 192 0 2 1)
              0x02AAAAAAAAAA example_nak example_checking = example_checking"
proof -
  let ?o = "example_ack_options\<lparr>recv_dhcp_message_type := Nak\<rparr>"
  have p: "msg_parseOptions example_nak = Some ?o"
    "msg_parseOptions (example_nak\<lparr>msg_DhcpXid := 1806000\<rparr>) = Some ?o"
    by (simp_all add: example_nak_def)
  have n: "recv_dhcp_message_type ?o = Nak"
    by simp
  have q: "m_state example_requesting = Requesting"
    "m_xid example_requesting = 5000"
    "dhcp_server_identifier (m_info example_requesting) = Ip4Addr_of 192 0 2 1"
    by (simp_all add: eval_defs)
  have c: "m_state example_checking = Checking"
    by (simp add: eval_defs)
  have r: "m_state example_renewing = Renewing" "m_xid example_renewing = 1806000"
    by (simp_all add: eval_defs)
  have m: "msg_tot_len example_nak = 300" "msg_hasHeader example_nak"
    "msg_DhcpOp example_nak = BootReply" "msg_DhcpHtype example_nak = DhcpHwAddrType_Ethernet"
    "msg_DhcpHlen example_nak = MacAddr_Size" "msg_DhcpXid example_nak = 5000"
    "msg_DhcpChaddr example_nak = iface_MacAddr example_Params"
    "msg_DhcpMagic example_nak = DhcpMagic"
    "recv_have_dhcp_message_type ?o" "recv_have_dhcp_server_identifier ?o"
    "recv_dhcp_server_identifier ?o = Ip4Addr_of 192 0 2 1"
    "DhcpHeaderSize \<le> 300"
    by (simp_all add: eval_defs)
  have t: "(6100 :: 32 word) + SecToTicks example_Params (ucast (ResetTimeoutSeconds example_Params))
             = 9100"
    "(1806500 :: 32 word)
       + SecToTicks example_Params (ucast (BaseRtxTimeoutSeconds example_Params)) = 1809500"
    by (simp_all add: SecToTicks_def SecToTicksNoAssert_def example_Params_def)
  show ?thesis
    using nak_handling [OF p(1) n, of example_requesting example_Params 6100
        "Ip4Addr_of 192 0 2 1" "0x02AAAAAAAAAA"]
      nak_handling [OF p(2) n, of example_renewing example_Params 1806500
        "Ip4Addr_of 192 0 2 1" "0x02AAAAAAAAAA"]
      nak_handling [OF p(1) n, of example_checking example_Params 6200
        "Ip4Addr_of 192 0 2 1" "0x02AAAAAAAAAA"]
    by (simp add: p q c r m t)
qed

subsection \<open>The time passed of a lease\<close>

lemma no_wrap_passed:
  fixes passed lease passed_sec :: u32
  assumes "passed \<le> lease" and "passed_sec < lease - passed"
  shows "unat (passed + passed_sec) = unat passed + unat passed_sec"
    and "passed + passed_sec < lease"
    and "passed \<le> passed + passed_sec"
  using assms by unat_arith+

lemma renew_rebind_transition_fields:
  "m_state (renew_rebind_transition now st) =
     (if m_state st \<noteq> Rebinding \<and> rebinding_time_s (m_info st) \<le> m_lease_time_passed st
        then Rebinding
      else if m_state st = Bound \<and> renewal_time_s (m_info st) \<le> m_lease_time_passed st
        then Renewing else m_state st)"
  "m_info (renew_rebind_transition now st) = m_info st"
  "m_lease_time_passed (renew_rebind_transition now st) = m_lease_time_passed st"
  "m_timer_time (renew_rebind_transition now st) = m_timer_time st"
  "m_timer_set (renew_rebind_transition now st) = m_timer_set st"
  "effects (renew_rebind_transition now st) = effects st"
  "m_handler (renew_rebind_transition now st) = m_handler st"
  "m_arp_observer (renew_rebind_transition now st) = m_arp_observer st"
  by (simp_all add: renew_rebind_transition_def prim_defs)

lemma renew_send_request_fields:
  "m_state (renew_send_request P now st) = m_state st"
  "m_info (renew_send_request P now st) = m_info st"
  "m_lease_time_passed (renew_send_request P now st) = m_lease_time_passed st"
  "m_timer_time (renew_send_request P now st) = m_timer_time st"
  "m_timer_set (renew_send_request P now st) = m_timer_set st"
  "m_handler (renew_send_request P now st) = m_handler st"
  "m_arp_observer (renew_send_request P now st) = m_arp_observer st"
  "m_request_send_time_passed (renew_send_request P now st) =
     (if m_state st = Bound then m_request_send_time_passed st else m_lease_time_passed st)"
  "m_request_send_time (renew_send_request P now st) =
     (if m_state st = Bound then m_request_send_time st else now)"
  by (simp_all add: renew_send_request_def send_request_fields)

lemma renew_send_request_effects:
  "m_state st \<noteq> Bound \<Longrightarrow>
   \<exists>m. effects (renew_send_request P now st) = effects st @ [SendUdpIp4Packet m] \<and>
       sent_msg_type m = Request \<and> sent_DhcpXid m = m_xid st \<and>
       sent_dst_addr m = (if m_state st = Renewing then dhcp_server_addr (m_info st) else AllOnesAddr)"
  using send_request_effects [of P st]
  by (auto simp add: renew_send_request_def)

lemma renew_after_fields:
  "m_info (renew_after P now st) = m_info st"
  "m_lease_time_passed (renew_after P now st)
     = m_lease_time_passed st + TicksToSec P (now - m_timer_time st)"
  "m_timer_time (renew_after P now st) = m_timer_time st"
  "effects (renew_after P now st) = effects st"
  "m_handler (renew_after P now st) = m_handler st"
  "m_arp_observer (renew_after P now st) = m_arp_observer st"
  "m_state (renew_after P now st) =
     (if m_state st \<noteq> Rebinding \<and>
         rebinding_time_s (m_info st)
           \<le> m_lease_time_passed st + TicksToSec P (now - m_timer_time st)
        then Rebinding
      else if m_state st = Bound \<and>
         renewal_time_s (m_info st)
           \<le> m_lease_time_passed st + TicksToSec P (now - m_timer_time st)
        then Renewing else m_state st)"
  by (simp_all add: renew_after_def renew_rebind_transition_fields)

lemma renew_handler_expired:
  assumes "\<not> TicksToSec P (now - m_timer_time st) < lease_time_s (m_info st) - m_lease_time_passed st"
  shows "handleTimerBoundRenewingRebinding P now st =
     handle_expired_lease P now True
       (AIPSTACK_ASSERT (m_lease_time_passed st \<le> lease_time_s (m_info st)) st)"
  using assms
  by (simp add: handleTimerBoundRenewingRebinding_def Let_def getTimSetTime_def AIPSTACK_ASSERT_def
         not_less)

lemma renew_handler_not_expired:
  assumes "TicksToSec P (now - m_timer_time st) < lease_time_s (m_info st) - m_lease_time_passed st"
  shows "handleTimerBoundRenewingRebinding P now st =
    timer_setAt
      (m_timer_time st + SecToTicksNoAssert P (TicksToSec P (now - m_timer_time st) + 
          min (renew_timer_rel_sec P (renew_after P now st)) (MaxTimerSeconds P)))
      ((renew_send_request P now (renew_after P now st))
        \<lparr>m_lease_time_passed := m_lease_time_passed st + TicksToSec P (now - m_timer_time st)
            + min (renew_timer_rel_sec P (renew_after P now st)) (MaxTimerSeconds P)\<rparr>)"
  using assms
  by (simp add: handleTimerBoundRenewingRebinding_def Let_def getTimSetTime_def AIPSTACK_ASSERT_def
      renew_send_request_fields renew_rebind_transition_fields renew_after_def not_le [symmetric] del: not_le)

lemma handle_expired_lease_state:
  "m_state (handle_expired_lease P now h st) = Selecting"
  by (simp add: handle_expired_lease_def handle_dhcp_down_fields start_discovery_fields)

lemma lease_inv_no_lease:
  "m_state st \<noteq> Checking \<Longrightarrow> \<not> hasLease st \<Longrightarrow> lease_inv st"
  by (simp add: lease_inv_def)

lemma lease_inv_Selecting: "m_state st = Selecting \<Longrightarrow> lease_inv st"
  by (simp add: lease_inv_def hasLease_def)

lemma add_le_target:
  fixes p target d :: u32
  assumes "p < target" and "d \<le> target - p"
  shows "p + d \<le> target" and "unat (p + d) = unat p + unat d"
  using assms by unat_arith+

lemma rel_sec_bound:
  fixes p target m r :: u32
  assumes "p < target" 
  shows "p + min (target - p) m \<le> target"
    and "p + min (min (target - p) r) m \<le> target"
    and "unat (p + min (min (target - p) r) m) = unat p + unat (min (min (target - p) r) m)"
proof -
  have a: "min (target - p) m \<le> target - p" by simp
  have b: "min (min (target - p) r) m \<le> target - p" by (simp add: min.coboundedI1)
  show "p + min (target - p) m \<le> target" using add_le_target(1) [OF assms a] .
  show "p + min (min (target - p) r) m \<le> target" using add_le_target(1) [OF assms b] .
  show "unat (p + min (min (target - p) r) m) = unat p + unat (min (min (target - p) r) m)"
    using add_le_target(2) [OF assms b] .
qed


lemma renew_after_state_cases:
  "m_state (renew_after P now st) = Bound \<Longrightarrow>
     m_lease_time_passed st + TicksToSec P (now - m_timer_time st) < renewal_time_s (m_info st)"
  "m_state (renew_after P now st) = Renewing \<Longrightarrow>
     m_lease_time_passed st + TicksToSec P (now - m_timer_time st) < rebinding_time_s (m_info st)"
  by (simp_all add: renew_after_fields split: if_splits)

lemma renew_after_hasLease:
  "hasLease st \<Longrightarrow> hasLease (renew_after P now st)"
  by (simp add: renew_after_fields hasLease_def)


lemma renew_passed_bound:
  assumes ord: "times_ordered (m_info st)" and l: "hasLease st"
    and plt: "m_lease_time_passed st + TicksToSec P (now - m_timer_time st) < lease_time_s (m_info st)"
  shows "m_lease_time_passed st + TicksToSec P (now - m_timer_time st)
           + min (renew_timer_rel_sec P (renew_after P now st)) (MaxTimerSeconds P)
         \<le> lease_time_s (m_info st)"
proof -
  let ?p = "m_lease_time_passed st + TicksToSec P (now - m_timer_time st)"
  let ?a = "renew_after P now st"
  have "hasLease ?a" using l by (rule renew_after_hasLease)
  then consider (B) "m_state ?a = Bound" | (R) "m_state ?a = Renewing" | (Rb) "m_state ?a = Rebinding"
    unfolding hasLease_def by blast
  then show ?thesis
  proof cases
    case B
    have "?p + min (renewal_time_s (m_info st) - ?p) (MaxTimerSeconds P) \<le> renewal_time_s (m_info st)"
      using renew_after_state_cases(1) [OF B] by (rule rel_sec_bound(1))
    moreover have "renew_timer_rel_sec P ?a = renewal_time_s (m_info st) - ?p"
      using B by (simp add: renew_timer_rel_sec_def renew_after_fields(1,2))
    moreover have "renewal_time_s (m_info st) \<le> lease_time_s (m_info st)"
      using ord unfolding times_ordered_def by (blast intro: order_trans)
    ultimately show ?thesis by simp
  next
    case R
    have "?p + min (min (rebinding_time_s (m_info st) - ?p) 
         (max (ucast (MinRenewRtxTimeoutSeconds P)) ((rebinding_time_s (m_info st) - ?p) div 2)))
         (MaxTimerSeconds P) \<le> rebinding_time_s (m_info st)"
      using renew_after_state_cases(2) [OF R] by (rule rel_sec_bound(2))
    moreover have "renew_timer_rel_sec P ?a = min (rebinding_time_s (m_info st) - ?p) 
         (max (ucast (MinRenewRtxTimeoutSeconds P)) ((rebinding_time_s (m_info st) - ?p) div 2))"
      using R by (simp add: renew_timer_rel_sec_def renew_after_fields(1,2) Let_def)
    moreover have "rebinding_time_s (m_info st) \<le> lease_time_s (m_info st)"
      using ord by (simp add: times_ordered_def)
    ultimately show ?thesis by simp
  next
    case Rb
    have "?p + min (min (lease_time_s (m_info st) - ?p) 
         (max (ucast (MinRenewRtxTimeoutSeconds P)) ((lease_time_s (m_info st) - ?p) div 2)))
         (MaxTimerSeconds P) \<le> lease_time_s (m_info st)"
      using plt by (rule rel_sec_bound(2))
    moreover have "renew_timer_rel_sec P ?a = min (lease_time_s (m_info st) - ?p) 
         (max (ucast (MinRenewRtxTimeoutSeconds P)) ((lease_time_s (m_info st) - ?p) div 2))"
      using Rb by (simp add: renew_timer_rel_sec_def renew_after_fields(1,2) Let_def)
    ultimately show ?thesis by simp
  qed
qed


lemma renew_handler_lease_inv:
  assumes inv: "lease_inv st" and l: "hasLease st"
  shows "lease_inv (handleTimerBoundRenewingRebinding P now st)"
proof (cases "TicksToSec P (now - m_timer_time st) < lease_time_s (m_info st) - m_lease_time_passed st")
  case False
  show ?thesis
    unfolding renew_handler_expired [OF False]
    by (rule lease_inv_Selecting) (rule handle_expired_lease_state)
next
  case True
  from inv l have ord: "times_ordered (m_info st)" 
    and le: "m_lease_time_passed st \<le> lease_time_s (m_info st)"
    by (simp_all add: lease_inv_def)
  have plt: "m_lease_time_passed st + TicksToSec P (now - m_timer_time st) < lease_time_s (m_info st)"
    using no_wrap_passed(2) [OF le True] .
  note b = renew_passed_bound [OF ord l plt]
  show ?thesis
    unfolding renew_handler_not_expired [OF True]
    using ord b
    by (simp add: lease_inv_def hasLease_def timer_setAt_def renew_send_request_fields renew_after_fields(1))
qed


lemma lease_inv_frame:
  assumes "lease_inv st" and "m_state st' = m_state st" and "m_info st' = m_info st"
    and "m_lease_time_passed st' = m_lease_time_passed st"
  shows "lease_inv st'"
  using assms by (simp add: lease_inv_def hasLease_def)

lemma lease_inv_state:
  assumes "m_state st = LinkDown \<or> m_state st = Resetting \<or> m_state st = Rebooting \<or>
           m_state st = Selecting \<or> m_state st = Requesting"
  shows "lease_inv st"
  using assms by (auto simp add: lease_inv_def hasLease_def)

lemma go_resetting_state:
  "m_state (go_resetting P now d st) = (if d then Selecting else Resetting)"
  by (simp add: go_resetting_def Let_def handle_dhcp_down_fields start_discovery_fields prim_defs)

lemma go_bound_expired:
  assumes "lease_time_s (m_info st) \<le> TicksToSec P (now - m_request_send_time st)"
  shows "m_state (go_bound P now st) = Selecting"
  using assms by (simp add: go_bound_def Let_def AIPSTACK_ASSERT_def handle_expired_lease_state)

lemma go_bound_set_timer_fields:
  "m_state (go_bound_set_timer P h st) = Bound"
  "m_info (go_bound_set_timer P h st) = m_info st"
  "m_arp_observer (go_bound_set_timer P h st) = m_arp_observer st"
  "m_lease_time_passed (go_bound_set_timer P h st) =
     m_lease_time_passed st +
       min (if m_lease_time_passed st \<le> renewal_time_s (m_info st)
              then renewal_time_s (m_info st) - m_lease_time_passed st else 0)
           (MaxTimerSeconds P)"
  "effects (go_bound_set_timer P h st) =
     effects st @
       [SetIp4Addr (Some (of_nat (countLeadingOnes (subnet_mask (m_info st))),
                          ip_address (m_info st))),
        SetIp4Gateway (if have_router (m_info st) then Some (router (m_info st)) else None)]
       @ (if m_handler st then [Handler (if h then LeaseRenewed else LeaseObtained)] else [])"
  by (simp_all add: go_bound_set_timer_def Let_def prim_defs)

lemma go_bound_not_expired:
  assumes "\<not> lease_time_s (m_info st) \<le> TicksToSec P (now - m_request_send_time st)"
  shows "go_bound P now st =
     go_bound_set_timer P (hasLease st)
       ((AIPSTACK_ASSERT (m_state st = Checking \<or> m_state st = Renewing \<or>
                          m_state st = Rebinding \<or> m_state st = Rebooting) st)
        \<lparr>m_lease_time_passed := TicksToSec P (now - m_request_send_time st)\<rparr>)"
  using assms by (simp add: go_bound_def Let_def AIPSTACK_ASSERT_def)

lemma go_bound_passed_bound:
  fixes T renewal lease m :: u32
  assumes "T < lease" and "renewal \<le> lease"
  shows "T + min (if T \<le> renewal then renewal - T else 0) m \<le> lease"
proof -
  have "(if T \<le> renewal then renewal - T else 0) \<le> lease - T"
    using assms by (cases "T \<le> renewal") (simp_all, unat_arith)
  then have "min (if T \<le> renewal then renewal - T else 0) m \<le> lease - T"
    by (rule min.coboundedI1)
  then show ?thesis using add_le_target(1) [OF assms(1)] by blast
qed

lemma go_bound_not_expired_fields:
  assumes "\<not> lease_time_s (m_info st) \<le> TicksToSec P (now - m_request_send_time st)"
  shows "m_state (go_bound P now st) = Bound"
    and "m_info (go_bound P now st) = m_info st"
    and "m_arp_observer (go_bound P now st) = m_arp_observer st"
    and "m_lease_time_passed (go_bound P now st) =
           TicksToSec P (now - m_request_send_time st) +
             min (if TicksToSec P (now - m_request_send_time st) \<le> renewal_time_s (m_info st)
                    then renewal_time_s (m_info st) - TicksToSec P (now - m_request_send_time st)
                  else 0)
                 (MaxTimerSeconds P)"
    and "effects (go_bound P now st) =
           effects st @
             [SetIp4Addr (Some (of_nat (countLeadingOnes (subnet_mask (m_info st))),
                                ip_address (m_info st))),
              SetIp4Gateway (if have_router (m_info st) then Some (router (m_info st)) else None)]
             @ (if m_handler st
                  then [Handler (if hasLease st then LeaseRenewed else LeaseObtained)] else [])"
  unfolding go_bound_not_expired [OF assms]
  by (simp_all add: go_bound_set_timer_fields AIPSTACK_ASSERT_def)

lemma go_bound_lease_inv:
  assumes ord: "times_ordered (m_info st)"
  shows "lease_inv (go_bound P now st)"
proof (cases "lease_time_s (m_info st) \<le> TicksToSec P (now - m_request_send_time st)")
  case True
  show ?thesis by (rule lease_inv_Selecting) (rule go_bound_expired [OF True])
next
  case False
  have r: "renewal_time_s (m_info st) \<le> lease_time_s (m_info st)"
    using ord unfolding times_ordered_def by (blast intro: order_trans)
  have "TicksToSec P (now - m_request_send_time st) < lease_time_s (m_info st)"
    using False by simp
  note b = go_bound_passed_bound [OF this r, of "MaxTimerSeconds P"]
  show ?thesis
    unfolding lease_inv_def hasLease_def go_bound_not_expired_fields [OF False]
    using ord b by blast
qed

lemma go_checking_fields:
  "m_state (go_checking P now st) = Checking"
  "m_info (go_checking P now st) = m_info st"
  "m_arp_observer (go_checking P now st)"
  "effects (go_checking P now st) = effects st @ [SendArpQuery (ip_address (m_info st))]"
  by (simp_all add: go_checking_def prim_defs)

lemma times_ordered_update:
  assumes "checkAndFixupAck addr opts0 = (True, opts)"
  shows "times_ordered (update_lease_info addr' src_addr mac opts info)"
  using checkAndFixupAck_ordered(1,2) [OF assms]
  by (simp add: times_ordered_def update_lease_info_def)

lemma AIPSTACK_ASSERT_lease_inv: "lease_inv (AIPSTACK_ASSERT c st) = lease_inv st"
  by (simp add: lease_inv_def hasLease_def AIPSTACK_ASSERT_def)

lemma AIPSTACK_ASSERT_fields:
  "m_state (AIPSTACK_ASSERT c st) = m_state st"
  "m_info (AIPSTACK_ASSERT c st) = m_info st"
  "m_lease_time_passed (AIPSTACK_ASSERT c st) = m_lease_time_passed st"
  "m_request_send_time_passed (AIPSTACK_ASSERT c st) = m_request_send_time_passed st"
  "m_request_send_time (AIPSTACK_ASSERT c st) = m_request_send_time st"
  "m_arp_observer (AIPSTACK_ASSERT c st) = m_arp_observer st"
  "m_handler (AIPSTACK_ASSERT c st) = m_handler st"
  "m_timer_set (AIPSTACK_ASSERT c st) = m_timer_set st"
  "m_timer_time (AIPSTACK_ASSERT c st) = m_timer_time st"
  "m_xid (AIPSTACK_ASSERT c st) = m_xid st"
  "m_request_count (AIPSTACK_ASSERT c st) = m_request_count st"
  "effects (AIPSTACK_ASSERT c st) = effects st"
  by (simp_all add: AIPSTACK_ASSERT_def)

lemma accepted_ack_lease_inv:
  assumes acc: "checkAndFixupAck addr opts0 = (True, opts)"
  shows "lease_inv (go_checking P now
           (st\<lparr>m_info := update_lease_info addr' src_addr mac opts info\<rparr>))"
    and "lease_inv (go_bound P now
           (st\<lparr>m_info := update_lease_info addr' src_addr mac opts info\<rparr>))"
proof -
  note ord = times_ordered_update [OF acc, of addr' src_addr mac info]
  show "lease_inv (go_checking P now
           (st\<lparr>m_info := update_lease_info addr' src_addr mac opts info\<rparr>))"
    using ord by (simp add: lease_inv_def hasLease_def go_checking_fields)
  show "lease_inv (go_bound P now
           (st\<lparr>m_info := update_lease_info addr' src_addr mac opts info\<rparr>))"
    by (rule go_bound_lease_inv) (simp add: ord)
qed

lemma process_ack_lease_inv:
  assumes inv: "lease_inv st"
  shows "lease_inv (process_ack P now src_addr mac addr opts0 st)"
proof (cases "checkAndFixupAck addr opts0")
  case (Pair b opts)
  show ?thesis
  proof (cases b)
    case False
    then show ?thesis using Pair inv by (simp add: process_ack_def)
  next
    case True
    with Pair have acc: "checkAndFixupAck addr opts0 = (True, opts)" by simp
    note a = accepted_ack_lease_inv [OF acc]
    show ?thesis
      using inv
      by (simp add: process_ack_def acc Let_def AIPSTACK_ASSERT_lease_inv
            AIPSTACK_ASSERT_fields a)
  qed
qed


lemma process_offer_state: "m_state (process_offer P now addr opts st) = Requesting"
  by (simp add: process_offer_def prim_defs Let_def)

lemma processReceivedDhcpMessage_lease_inv:
  assumes inv: "lease_inv st"
  shows "lease_inv (processReceivedDhcpMessage P now src_addr mac msg st)"
proof -
  have r: "lease_inv (go_resetting P now d st)" for d
    by (rule lease_inv_state) (simp add: go_resetting_state)
  have o: "lease_inv (process_offer P now addr opts st)" for addr opts
    by (rule lease_inv_state) (simp add: process_offer_state)
  show ?thesis
    unfolding processReceivedDhcpMessage_def
    using inv r o process_ack_lease_inv [OF inv]
    by (simp split: option.split)
qed

lemma handleTimerSelecting_frame:
  "m_state (handleTimerSelecting P now st) = m_state st"
  "m_info (handleTimerSelecting P now st) = m_info st"
  "m_lease_time_passed (handleTimerSelecting P now st) = m_lease_time_passed st"
  "m_arp_observer (handleTimerSelecting P now st) = m_arp_observer st"
  by (simp_all add: handleTimerSelecting_def prim_defs Let_def)

lemma handleTimerRebootingRequesting_state:
  "m_state (handleTimerRebootingRequesting P now st) =
     (if (if m_state st = Rebooting then MaxRebootRequests P else MaxRequests P)
           \<le> m_request_count st
        then Selecting else m_state st)"
  by (simp add: handleTimerRebootingRequesting_def Let_def start_discovery_fields prim_defs)

lemma timer_unset_fields:
  "m_state (timer_unset st) = m_state st"
  "m_info (timer_unset st) = m_info st"
  "m_lease_time_passed (timer_unset st) = m_lease_time_passed st"
  by (simp_all add: timer_unset_def)

lemma timer_unset_lease_inv: "lease_inv (timer_unset st) = lease_inv st"
  by (simp add: lease_inv_def hasLease_def timer_unset_fields)

lemma handleTimerChecking_lease_inv:
  assumes inv: "lease_inv st" and c: "m_state st = Checking"
  shows "lease_inv (handleTimerChecking P now st)"
proof (cases "m_request_count st < NumArpQueries P")
  case True
  then show ?thesis using inv c
    by (simp add: handleTimerChecking_def lease_inv_def hasLease_def prim_defs)
next
  case False
  have "times_ordered (m_info (arp_observer_reset st))"
    using inv c by (simp add: lease_inv_def arp_observer_reset_def)
  then have "lease_inv (go_bound P now (arp_observer_reset st))"
    by (rule go_bound_lease_inv)
  then show ?thesis using False by (simp add: handleTimerChecking_def)
qed

lemma timerHandler_lease_inv:
  assumes inv: "lease_inv st"
  shows "lease_inv (timerHandler P now st)"
proof (cases "m_state st")
  case LinkDown
  then show ?thesis unfolding timerHandler_def
    by (simp add: AIPSTACK_ASSERT_lease_inv inv)
next
  case Resetting
  then show ?thesis unfolding timerHandler_def
    by (simp add: handleTimerResetting_def lease_inv_Selecting start_discovery_fields)
next
  case Rebooting
  then show ?thesis unfolding timerHandler_def
    by (simp add: lease_inv_state handleTimerRebootingRequesting_state)
next
  case Selecting
  then show ?thesis unfolding timerHandler_def
    by (simp add: lease_inv_state handleTimerSelecting_frame)
next
  case Requesting
  then show ?thesis unfolding timerHandler_def
    by (simp add: lease_inv_state handleTimerRebootingRequesting_state)
next
  case Checking
  then show ?thesis unfolding timerHandler_def
    by (simp add: handleTimerChecking_lease_inv inv)
next
  case Bound
  then show ?thesis unfolding timerHandler_def
    by (simp add: renew_handler_lease_inv inv hasLease_def)
next
  case Renewing
  then show ?thesis unfolding timerHandler_def
    by (simp add: renew_handler_lease_inv inv hasLease_def)
next
  case Rebinding
  then show ?thesis unfolding timerHandler_def
    by (simp add: renew_handler_lease_inv inv hasLease_def)
qed

lemma retrySending_lease_inv:
  assumes "lease_inv st"
  shows "lease_inv (retrySending P st)"
  using assms
  by (simp add: retrySending_def lease_inv_def hasLease_def prim_defs Let_def)

lemma ifaceStateChanged_lease_inv:
  assumes inv: "lease_inv st"
  shows "lease_inv (ifaceStateChanged P now link_up st)"
proof -
  have a: "lease_inv (start_discovery_or_rebooting P now st)"
    by (rule lease_inv_state) (simp add: start_discovery_or_rebooting_fields)
  have b: "m_state (ifaceStateChanged P now False st) = LinkDown"
    by (simp add: ifaceStateChanged_def Let_def handle_dhcp_down_fields prim_defs)
  show ?thesis
  proof (cases link_up)
    case True
    then show ?thesis using a inv by (simp add: ifaceStateChanged_def)
  next
    case False
    then show ?thesis using b by (simp add: lease_inv_state)
  qed
qed

lemma arpInfoReceived_lease_inv:
  assumes inv: "lease_inv st"
  shows "lease_inv (arpInfoReceived P now ip_addr mac_addr st)"
proof -
  have r: "lease_inv (go_resetting P now False s)" for s
    by (rule lease_inv_state) (simp add: go_resetting_state)
  show ?thesis
    using inv r by (simp add: arpInfoReceived_def Let_def AIPSTACK_ASSERT_lease_inv)
qed

lemma step_lease_inv:
  assumes "lease_inv st"
  shows "lease_inv (step P ev st)"
  using assms
  by (cases ev)
     (simp_all add: timerHandler_lease_inv timer_unset_lease_inv udpIp4PacketReceived_def
        processReceivedDhcpMessage_lease_inv ifaceStateChanged_lease_inv
        arpInfoReceived_lease_inv retrySending_lease_inv)

lemma run_lease_inv:
  "lease_inv st \<Longrightarrow> lease_inv (run P st evs)"
  by (induction evs arbitrary: st) (simp_all add: step_lease_inv)

lemma construct_lease_inv:
  "lease_inv (IpDhcpClient_construct P now link_up opts handler raw)"
  by (rule lease_inv_state)
     (simp add: IpDhcpClient_construct_def Let_def start_discovery_or_rebooting_fields)


text \<open>
  Claim C5. In every state a client can reach from its construction by any sequence of
  callbacks (timer, received datagram, change of the interface's state, ARP message,
  send-retry), whenever it has a lease (BOUND, RENEWING or REBINDING),
  \<open>m_lease_time_passed \<le> lease_time_s\<close>. This is what
  \<open>handleTimerBoundRenewingRebinding\<close> asserts when the timer fires in these states.
  The proof goes through \<open>go_bound\<close> and the timer handler: each either finds the lease
  expired and starts discovery, or leaves \<open>m_lease_time_passed\<close> at most the renewal
  time, the rebinding time or the lease time, which the fix-up of the ACK has ordered.
\<close>

theorem lease_time_passed_bounded:
  "hasLease (run P (IpDhcpClient_construct P now link_up opts handler raw) evs) \<longrightarrow>
     m_lease_time_passed (run P (IpDhcpClient_construct P now link_up opts handler raw) evs)
       \<le> lease_time_s
            (m_info (run P (IpDhcpClient_construct P now link_up opts handler raw) evs))"
  using run_lease_inv [OF construct_lease_inv, of P P now link_up opts handler raw evs]
  by (simp add: lease_inv_def)

theorem lease_time_passed_bounded_witness:
  "hasLease (run example_Params
      (IpDhcpClient_construct example_Params 5000 True example_init True example_raw)
      example_acquire) \<and>
   m_lease_time_passed (run example_Params
      (IpDhcpClient_construct example_Params 5000 True example_init True example_raw)
      example_acquire) = 1800 \<and>
   lease_time_s (m_info (run example_Params
      (IpDhcpClient_construct example_Params 5000 True example_init True example_raw)
      example_acquire)) = 3600 \<and>
   m_lease_time_passed (run example_Params
      (IpDhcpClient_construct example_Params 5000 True example_init True example_raw)
      example_acquire)
     \<le> lease_time_s (m_info (run example_Params
      (IpDhcpClient_construct example_Params 5000 True example_init True example_raw)
      example_acquire))"
proof -
  have h: "hasLease (run example_Params
      (IpDhcpClient_construct example_Params 5000 True example_init True example_raw)
      example_acquire)"
    by (simp add: eval_defs example_acquire_def)
  have v: "m_lease_time_passed (run example_Params
      (IpDhcpClient_construct example_Params 5000 True example_init True example_raw)
      example_acquire) = 1800"
    "lease_time_s (m_info (run example_Params
      (IpDhcpClient_construct example_Params 5000 True example_init True example_raw)
      example_acquire)) = 3600"
    by (simp_all add: eval_defs example_acquire_def)
  show ?thesis
    using lease_time_passed_bounded [of example_Params 5000 True example_init
        True example_raw example_acquire, THEN mp, OF h] h
    by (simp add: v)
qed

subsection \<open>Evaluating the example runs\<close>

lemmas run_defs = example_Params_def machine_defs prim_defs ack_defs Ip4Addr_defs Let_def

lemma example_bound_fields:
  "m_state example_bound = Bound"
  "m_timer_set example_bound"
  "m_timer_time example_bound = 1806000"
  "m_lease_time_passed example_bound = 1800"
  "lease_time_s (m_info example_bound) = 3600"
  "renewal_time_s (m_info example_bound) = 1800"
  "rebinding_time_s (m_info example_bound) = 3150"
  by (simp_all add: eval_defs)

lemma example_renewing_fields:
  "m_state example_renewing = Renewing"
  "m_timer_set example_renewing"
  "m_timer_time example_renewing = 2481000"
  "m_lease_time_passed example_renewing = 2475"
  "lease_time_s (m_info example_renewing) = 3600"
  "renewal_time_s (m_info example_renewing) = 1800"
  "rebinding_time_s (m_info example_renewing) = 3150"
  by (simp_all add: example_renewing_def run_defs example_bound_fields)

lemma example_renewing_late_fields:
  "m_state example_renewing_late = Renewing"
  "m_timer_set example_renewing_late"
  "m_timer_time example_renewing_late = 3131000"
  "m_lease_time_passed example_renewing_late = 3125"
  "lease_time_s (m_info example_renewing_late) = 3600"
  "rebinding_time_s (m_info example_renewing_late) = 3150"
  by (simp_all add: example_renewing_late_def run_defs example_renewing_fields)

lemma example_renewing_year_fields:
  "m_state example_renewing_year = Renewing"
  "m_timer_set example_renewing_year"
  "m_timer_time example_renewing_year = 2149289000"
  "m_lease_time_passed example_renewing_year = 2149283"
  "lease_time_s (m_info example_renewing_year) = 31536000"
  "rebinding_time_s (m_info example_renewing_year) = 27594000"
  by (simp_all add: eval_defs example_renewing_year_def example_ack_year_def)

subsection \<open>The timer in RENEWING and REBINDING\<close>

text \<open>
  Claim C2, amended. When the timer fires in RENEWING or REBINDING and the lease has
  not expired, a REQUEST is sent and the timer is armed again, \<open>delay\<close> seconds after
  the second the handler has accounted for (\<open>elapsed\<close>: the seconds of the lease passed
  at the last expiry plus the whole seconds passed since), where \<open>delay\<close> is the
  least of \<open>time_to_next_state\<close>, of \<open>max (MinRenewRtxTimeoutSeconds,
  time_to_next_state / 2)\<close> and of \<open>MaxTimerSeconds\<close>. The next state is REBINDING
  while the client stays in RENEWING, and the end of the lease when it is, or has just
  become, REBINDING; \<open>time_to_next_state\<close> is measured from \<open>elapsed\<close>. So the timer
  never waits beyond the next change of state nor beyond what the platform's timer can
  span. Nothing wraps around in these sums.
\<close>

theorem renew_timer_schedule:
  assumes s: "m_state st = Renewing \<or> m_state st = Rebinding"
      and le: "m_lease_time_passed st \<le> lease_time_s (m_info st)"
      and ne: "TicksToSec P (now - m_timer_time st)
                 < lease_time_s (m_info st) - m_lease_time_passed st"
  shows
   "let passed_sec = TicksToSec P (now - m_timer_time st);
        elapsed = m_lease_time_passed st + passed_sec;
        st' = handleTimerBoundRenewingRebinding P now st;
        next_state_sec = (if m_state st' = Renewing then rebinding_time_s (m_info st)
                          else lease_time_s (m_info st));
        time_to_next_state = next_state_sec - elapsed;
        delay = min (min time_to_next_state
                       (max (ucast (MinRenewRtxTimeoutSeconds P)) (time_to_next_state div 2)))
                    (MaxTimerSeconds P)
    in (m_state st' = Renewing \<or> m_state st' = Rebinding) \<and>
       (m_state st' = Renewing \<longleftrightarrow>
          m_state st = Renewing \<and> elapsed < rebinding_time_s (m_info st)) \<and>
       unat elapsed = unat (m_lease_time_passed st) + unat passed_sec \<and>
       elapsed < next_state_sec \<and>
       m_lease_time_passed st' = elapsed + delay \<and>
       unat (elapsed + delay) = unat elapsed + unat delay \<and>
       m_timer_set st' \<and>
       m_timer_time st' = m_timer_time st + SecToTicksNoAssert P (passed_sec + delay) \<and>
       (\<exists>m. effects st' = effects st @ [SendUdpIp4Packet m] \<and> sent_msg_type m = Request)"
proof -
  let ?ps = "TicksToSec P (now - m_timer_time st)"
  let ?p = "m_lease_time_passed st + ?ps"
  let ?a = "renew_after P now st"
  let ?st' = "handleTimerBoundRenewingRebinding P now st"
  let ?next = "if m_state ?a = Renewing then rebinding_time_s (m_info st)
               else lease_time_s (m_info st)"
  let ?d = "min (min (?next - ?p)
                   (max (ucast (MinRenewRtxTimeoutSeconds P)) ((?next - ?p) div 2)))
                (MaxTimerSeconds P)"
  note nw = no_wrap_passed [OF le ne]
  have sa: "m_state ?a = (if m_state st = Renewing \<and> ?p < rebinding_time_s (m_info st)
                          then Renewing else Rebinding)"
    using s by (auto simp add: renew_after_fields)
  have nb: "m_state ?a \<noteq> Bound"
    unfolding sa by simp
  have rel: "renew_timer_rel_sec P ?a =
               min (?next - ?p) (max (ucast (MinRenewRtxTimeoutSeconds P)) ((?next - ?p) div 2))"
    using nb by (simp add: renew_timer_rel_sec_def Let_def renew_after_fields(1,2))
  have f: "m_state ?st' = m_state ?a"
    "m_lease_time_passed ?st' = ?p + ?d"
    "m_timer_set ?st'"
    "m_timer_time ?st' = m_timer_time st + SecToTicksNoAssert P (?ps + ?d)"
    "effects ?st' = effects (renew_send_request P now ?a)"
    unfolding renew_handler_not_expired [OF ne] rel
    by (simp_all add: timer_setAt_def renew_send_request_fields)
  have lt: "?p < ?next"
    using nw(2) by (simp add: sa)
  have e: "\<exists>m. effects ?st' = effects st @ [SendUdpIp4Packet m] \<and> sent_msg_type m = Request"
    using renew_send_request_effects [OF nb, of P now]
    unfolding f(5) by (auto simp add: renew_after_fields)
  have r: "m_state ?a = Renewing \<or> m_state ?a = Rebinding"
    unfolding sa by simp
  have i: "m_state ?a = Renewing \<longleftrightarrow>
             m_state st = Renewing \<and> ?p < rebinding_time_s (m_info st)"
    unfolding sa by simp
  show ?thesis
    unfolding Let_def f(1,2,4)
    using r i nw(1) lt rel_sec_bound(3) [OF lt] f(3) e
    by blast
qed

theorem renew_timer_schedule_witness:
  "(m_state example_renewing = Renewing \<or> m_state example_renewing = Rebinding) \<and>
   m_lease_time_passed example_renewing \<le> lease_time_s (m_info example_renewing) \<and>
   TicksToSec example_Params (2481000 - m_timer_time example_renewing)
     < lease_time_s (m_info example_renewing) - m_lease_time_passed example_renewing \<and>
   m_state (handleTimerBoundRenewingRebinding example_Params 2481000 example_renewing)
     = Renewing \<and>
   m_lease_time_passed (handleTimerBoundRenewingRebinding example_Params 2481000 example_renewing)
     = 2475 + 337 \<and>
   m_timer_time (handleTimerBoundRenewingRebinding example_Params 2481000 example_renewing)
     = 2481000 + SecToTicksNoAssert example_Params 337"
proof -
  have s: "m_state example_renewing = Renewing \<or> m_state example_renewing = Rebinding"
    by (simp add: example_renewing_fields)
  have le: "m_lease_time_passed example_renewing \<le> lease_time_s (m_info example_renewing)"
    by (simp add: example_renewing_fields)
  have t: "TicksToSec example_Params 0 = 0"
    by (simp add: TicksToSec_def)
  have ne: "TicksToSec example_Params (2481000 - m_timer_time example_renewing)
     < lease_time_s (m_info example_renewing) - m_lease_time_passed example_renewing"
    by (simp add: t example_renewing_fields)
  have r: "m_state (handleTimerBoundRenewingRebinding example_Params 2481000 example_renewing)
     = Renewing"
    using renew_timer_schedule [OF s le ne]
    by (simp add: Let_def t example_renewing_fields)
  have m: "min (min (675 :: u32) (max (ucast (MinRenewRtxTimeoutSeconds example_Params))
                 337)) (MaxTimerSeconds example_Params) = 337"
    by (simp add: example_Params_def MaxTimerSeconds_def)
  show ?thesis
    using renew_timer_schedule [OF s le ne] s le ne
    by (simp add: Let_def t r m example_renewing_fields)
qed

text \<open>
  Claim C2 as stated fails, in two ways. The example client, in RENEWING 25 seconds
  before the rebinding time, has its timer fire on time:
  \<open>max (MinRenewRtxTimeoutSeconds, time_to_next_state / 2)\<close> is 60 seconds, and the
  timer is armed for 25, the time to the next state. The client with the lease of a
  year, in RENEWING 25444717 seconds before the rebinding time, has its timer fire on
  time: the maximum is 12722358 seconds, and the timer is armed for
  \<open>MaxTimerSeconds\<close>, 2147483 seconds, after which the client, still in RENEWING, will
  send its request again.
\<close>

theorem renew_timer_not_max:
  "m_state example_renewing_late = Renewing \<and>
   m_timer_set example_renewing_late \<and>
   rebinding_time_s (m_info example_renewing_late)
     - (m_lease_time_passed example_renewing_late
        + TicksToSec example_Params (3131000 - m_timer_time example_renewing_late)) = 25 \<and>
   max (ucast (MinRenewRtxTimeoutSeconds example_Params)) (25 div 2) = (60 :: u32) \<and>
   m_state (step example_Params (TimerExpired 3131000) example_renewing_late) = Renewing \<and>
   m_timer_time (step example_Params (TimerExpired 3131000) example_renewing_late)
     = 3131000 + SecToTicksNoAssert example_Params 25 \<and>
   m_timer_time (step example_Params (TimerExpired 3131000) example_renewing_late)
     \<noteq> 3131000 + SecToTicksNoAssert example_Params 60 \<and>
   m_state example_renewing_year = Renewing \<and>
   m_timer_set example_renewing_year \<and>
   rebinding_time_s (m_info example_renewing_year)
     - (m_lease_time_passed example_renewing_year
        + TicksToSec example_Params (2149289000 - m_timer_time example_renewing_year))
     = 25444717 \<and>
   max (ucast (MinRenewRtxTimeoutSeconds example_Params)) (25444717 div 2)
     = (12722358 :: u32) \<and>
   MaxTimerSeconds example_Params = 2147483 \<and>
   m_state (step example_Params (TimerExpired 2149289000) example_renewing_year) = Renewing \<and>
   m_timer_time (step example_Params (TimerExpired 2149289000) example_renewing_year)
     = 2149289000 + SecToTicksNoAssert example_Params 2147483 \<and>
   m_timer_time (step example_Params (TimerExpired 2149289000) example_renewing_year)
     \<noteq> 2149289000 + SecToTicksNoAssert example_Params 12722358"
  by (simp add: run_defs example_renewing_late_fields example_renewing_year_fields)

subsection \<open>Retransmissions of DISCOVER\<close>

lemma timerHandler_Selecting:
  "m_state st = Selecting \<Longrightarrow> timerHandler P now st = handleTimerSelecting P now st"
  by (simp add: timerHandler_def)

lemma handleTimerSelecting_xid:
  "m_state (handleTimerSelecting P now st) = m_state st"
  "m_xid (handleTimerSelecting P now st) =
     (if XidReuseMax P \<le> m_request_count st then ucast now else m_xid st)"
  "m_request_count (handleTimerSelecting P now st) =
     (if XidReuseMax P \<le> m_request_count st then 1 else m_request_count st + 1)"
  "m_client_id (handleTimerSelecting P now st) = m_client_id st"
  "m_vendor_class_id (handleTimerSelecting P now st) = m_vendor_class_id st"
  by (simp_all add: handleTimerSelecting_def prim_defs Let_def)

lemma handleTimerSelecting_effects:
  "effects (handleTimerSelecting P now st) =
     effects st @ [SendUdpIp4Packet \<lparr>
           sent_DhcpOp = BootRequest,
           sent_DhcpHtype = DhcpHwAddrType_Ethernet,
           sent_DhcpHlen = MacAddr_Size,
           sent_DhcpXid = m_xid (handleTimerSelecting P now st),
           sent_DhcpCiaddr = ZeroAddr,
           sent_DhcpChaddr = iface_MacAddr P,
           sent_DhcpMagic = DhcpMagic,
           sent_msg_type = Discover,
           sent_opts = DhcpSendOptions_default\<lparr>
              send_have_client_identifier := length (m_client_id st) > 0,
              send_client_identifier := (if length (m_client_id st) > 0 then m_client_id st else []),
              send_have_vendor_class_identifier := length (m_vendor_class_id st) > 0,
              send_vendor_class_identifier :=
                (if length (m_vendor_class_id st) > 0 then m_vendor_class_id st else []),
              send_have_max_dhcp_message_size := True,
              send_have_parameter_request_list := True\<rparr>,
           sent_mtu = iface_Mtu P,
           sent_src_addr = ZeroAddr,
           sent_dst_addr = AllOnesAddr,
           sent_src_port = DhcpClientPort,
           sent_dst_port = DhcpServerPort,
           sent_AllowNonLocalSrc = True \<rparr>]"
  by (simp add: handleTimerSelecting_def prim_defs Let_def DhcpSendOptions_default_def isZero_def)

lemma discover_xids_append:
  "discover_xids (es @ es') = discover_xids es @ discover_xids es'"
  by (induction es rule: discover_xids.induct) simp_all

lemma handleTimerSelecting_discover_xids:
  "discover_xids (effects (handleTimerSelecting P now st)) =
     discover_xids (effects st) @ [m_xid (handleTimerSelecting P now st)]"
  "length (effects (handleTimerSelecting P now st)) = length (effects st) + 1"
  by (simp_all add: handleTimerSelecting_effects discover_xids_append)

lemma request_count_Suc:
  fixes c m :: u8
  assumes "\<not> m \<le> c"
  shows "unat (c + 1) = unat c + 1"
  using assms by unat_arith

lemma selecting_timers_reuse:
  assumes "unat (m_request_count st) + length nows \<le> unat (XidReuseMax P)"
  shows "m_xid (selecting_timers P st nows) = m_xid st \<and>
         unat (m_request_count (selecting_timers P st nows))
           = unat (m_request_count st) + length nows \<and>
         discover_xids (effects (selecting_timers P st nows))
           = discover_xids (effects st) @ replicate (length nows) (m_xid st)"
  using assms
proof (induction nows arbitrary: st)
  case Nil
  then show ?case by simp
next
  case (Cons now nows)
  let ?s = "handleTimerSelecting P now st"
  from Cons.prems have lt: "\<not> XidReuseMax P \<le> m_request_count st"
    by (simp add: word_le_nat_alt)
  have x: "m_xid ?s = m_xid st" using lt by (simp add: handleTimerSelecting_xid)
  have c: "unat (m_request_count ?s) = unat (m_request_count st) + 1"
    using lt request_count_Suc [OF lt] by (simp add: handleTimerSelecting_xid)
  have "unat (m_request_count ?s) + length nows \<le> unat (XidReuseMax P)"
    using Cons.prems c by simp
  from Cons.IH [OF this] show ?case
    by (simp add: x c handleTimerSelecting_discover_xids replicate_app_Cons_same)
qed

text \<open>
  Claim C9, amended. In SELECTING the timer handler sends one DISCOVER each time it
  runs. While the counter \<open>m_request_count\<close> is below \<open>XidReuseMax\<close> it increments the
  counter and leaves the XID as it is; when the counter has reached \<open>XidReuseMax\<close> it
  sets the counter to 1 and takes a new XID, the low 32 bits of the clock. So from a
  counter of \<open>c\<close>, the next \<open>XidReuseMax - c\<close> DISCOVERs carry the XID unchanged and the
  one after them carries the regenerated XID: between two regenerations the timer sends
  \<open>XidReuseMax\<close> DISCOVERs, the first of them with the counter at 1. The regenerated XID
  is a reading of the clock: nothing makes it differ from the one before.
\<close>

theorem selecting_xid_reuse:
  "(\<not> XidReuseMax P \<le> m_request_count st \<longrightarrow>
      m_xid (handleTimerSelecting P now st) = m_xid st \<and>
      unat (m_request_count (handleTimerSelecting P now st)) = unat (m_request_count st) + 1) \<and>
   (XidReuseMax P \<le> m_request_count st \<longrightarrow>
      m_xid (handleTimerSelecting P now st) = ucast now \<and>
      m_request_count (handleTimerSelecting P now st) = 1) \<and>
   m_state (handleTimerSelecting P now st) = m_state st \<and>
   discover_xids (effects (handleTimerSelecting P now st))
     = discover_xids (effects st) @ [m_xid (handleTimerSelecting P now st)] \<and>
   length (effects (handleTimerSelecting P now st)) = length (effects st) + 1 \<and>
   (m_state st = Selecting \<longrightarrow> timerHandler P now st = handleTimerSelecting P now st) \<and>
   (unat (m_request_count st) + length nows \<le> unat (XidReuseMax P) \<longrightarrow>
      m_xid (selecting_timers P st nows) = m_xid st \<and>
      unat (m_request_count (selecting_timers P st nows))
        = unat (m_request_count st) + length nows \<and>
      discover_xids (effects (selecting_timers P st nows))
        = discover_xids (effects st) @ replicate (length nows) (m_xid st)) \<and>
   (unat (m_request_count st) + length nows = unat (XidReuseMax P) \<longrightarrow>
      m_xid (handleTimerSelecting P now (selecting_timers P st nows)) = ucast now \<and>
      m_request_count (handleTimerSelecting P now (selecting_timers P st nows)) = 1)"
proof -
  have a: "unat (m_request_count (handleTimerSelecting P now st)) = unat (m_request_count st) + 1"
    if "\<not> XidReuseMax P \<le> m_request_count st"
    using that request_count_Suc [OF that] by (simp add: handleTimerSelecting_xid)
  have b: "XidReuseMax P \<le> m_request_count (selecting_timers P st nows)"
    if "unat (m_request_count st) + length nows = unat (XidReuseMax P)"
    using that selecting_timers_reuse [of st nows P] by (simp add: word_le_nat_alt)
  show ?thesis
    using a b selecting_timers_reuse [of st nows P]
    by (simp add: handleTimerSelecting_xid handleTimerSelecting_discover_xids
          timerHandler_Selecting)
qed

theorem selecting_xid_reuse_witness:
  "m_state example_client = Selecting \<and>
   \<not> XidReuseMax example_Params \<le> m_request_count example_client \<and>
   unat (m_request_count example_client) + length [8000, 14000 :: 32 word]
     = unat (XidReuseMax example_Params) \<and>
   m_xid example_client = 5000 \<and>
   m_xid (handleTimerSelecting example_Params 8000 example_client) = 5000 \<and>
   m_xid (selecting_timers example_Params example_client [8000, 14000]) = 5000 \<and>
   discover_xids (effects (selecting_timers example_Params example_client [8000, 14000]))
     = [5000, 5000, 5000] \<and>
   XidReuseMax example_Params
     \<le> m_request_count (selecting_timers example_Params example_client [8000, 14000]) \<and>
   m_xid (handleTimerSelecting example_Params 26000
            (selecting_timers example_Params example_client [8000, 14000])) = 26000 \<and>
   m_request_count (handleTimerSelecting example_Params 26000
            (selecting_timers example_Params example_client [8000, 14000])) = 1"
proof -
  have c: "m_state example_client = Selecting" "m_xid example_client = 5000"
    "m_request_count example_client = 1" "discover_xids (effects example_client) = [5000]"
    by (simp_all add: eval_defs)
  have x: "XidReuseMax example_Params = 3"
    by (simp add: example_Params_def)
  have h: "\<not> XidReuseMax example_Params \<le> m_request_count example_client"
    by (simp add: c x word_le_nat_alt)
  have l: "unat (m_request_count example_client) + length [8000, 14000 :: 32 word]
     = unat (XidReuseMax example_Params)"
    by (simp add: c x)
  have g: "XidReuseMax example_Params
     \<le> m_request_count (selecting_timers example_Params example_client [8000, 14000])"
    using selecting_xid_reuse [of example_Params example_client 26000 "[8000, 14000]"] l
    by (simp add: word_le_nat_alt)
  show ?thesis
    using selecting_xid_reuse [of example_Params example_client 26000 "[8000, 14000]"]
      selecting_xid_reuse [of example_Params example_client 8000 "[]"] h l g
    by (simp add: c)
qed

text \<open>
  Claim C9 as stated fails in its last part. With \<open>XidReuseMax = 3\<close> and a clock that
  counts nanoseconds, the client sends its first DISCOVER at time 1000 with the XID 1000
  and retransmits it 3 and 9 seconds later; the next timeout, due after 12 more seconds,
  is handled 0.47 seconds late, at time \<open>1000 + 5 * 2^32\<close>, whose low 32 bits are 1000
  again: the fourth DISCOVER carries the XID of the first three.
\<close>

theorem discover_xid_repeated:
  "XidReuseMax example_Params_ns = 3 \<and>
   m_state example_client_ns = Selecting \<and>
   discover_xids (effects (run example_Params_ns example_client_ns
      [TimerExpired 3000001000, TimerExpired 9000001000, TimerExpired 21474837480]))
     = [1000, 1000, 1000, 1000]"
  by (simp add: example_Params_ns_def example_client_ns_def example_init_def example_raw_def
        machine_defs prim_defs Ip4Addr_defs Let_def word_le_nat_alt)

subsection \<open>An ACK in REBOOTING\<close>

lemma go_bound_expired_eq:
  assumes "lease_time_s (m_info st) \<le> TicksToSec P (now - m_request_send_time st)"
  shows "go_bound P now st =
     handle_expired_lease P now (hasLease st)
       ((AIPSTACK_ASSERT (m_state st = Checking \<or> m_state st = Renewing \<or>
                          m_state st = Rebinding \<or> m_state st = Rebooting) st)
        \<lparr>m_lease_time_passed := TicksToSec P (now - m_request_send_time st)\<rparr>)"
  using assms by (simp add: go_bound_def Let_def AIPSTACK_ASSERT_def)

lemma handle_expired_lease_no_lease:
  "m_arp_observer (handle_expired_lease P now False st) = m_arp_observer st"
  "\<exists>m. effects (handle_expired_lease P now False st) = effects st @ [SendUdpIp4Packet m] \<and>
       sent_msg_type m = Discover \<and> sent_DhcpXid m = ucast now"
  using start_discovery_effects [of P now st]
  by (simp_all add: handle_expired_lease_def start_discovery_fields)

lemma update_lease_info_fields:
  "lease_time_s (update_lease_info addr src_addr mac opts info) = recv_ip_address_lease_time opts"
  "ip_address (update_lease_info addr src_addr mac opts info) = addr"
  "subnet_mask (update_lease_info addr src_addr mac opts info) = recv_subnet_mask opts"
  "have_router (update_lease_info addr src_addr mac opts info) = recv_have_router opts"
  "router (update_lease_info addr src_addr mac opts info) =
     (if recv_have_router opts then recv_router opts else ZeroAddr)"
  "renewal_time_s (update_lease_info addr src_addr mac opts info) = recv_renewal_time opts"
  "rebinding_time_s (update_lease_info addr src_addr mac opts info) = recv_rebinding_time opts"
  by (simp_all add: update_lease_info_def)

lemma process_ack_Rebooting:
  assumes "m_state st = Rebooting" and "checkAndFixupAck addr opts0 = (True, opts)"
  shows "process_ack P now src_addr mac addr opts0 st =
           go_bound P now (st\<lparr>m_info := update_lease_info addr src_addr mac opts (m_info st)\<rparr>)"
  using assms by (simp add: process_ack_def Let_def)

text \<open>
  The time of the first request of REBOOTING: \<open>m_request_send_time\<close> is set when the
  state is entered and kept by every retransmission.
\<close>

lemma request_send_time_in_Rebooting:
  "\<not> isZero (ip_address (m_info st)) \<Longrightarrow>
     m_state (start_discovery_or_rebooting P now st) = Rebooting \<and>
     m_request_send_time (start_discovery_or_rebooting P now st) = now"
  "m_state st = Rebooting \<Longrightarrow> \<not> MaxRebootRequests P \<le> m_request_count st \<Longrightarrow>
     m_state (handleTimerRebootingRequesting P now st) = Rebooting \<and>
     m_request_send_time (handleTimerRebootingRequesting P now st) = m_request_send_time st"
  by (simp_all add: start_discovery_or_rebooting_def handleTimerRebootingRequesting_def
        prim_defs Let_def)

text \<open>
  CHECKING is reached by a received message from REQUESTING only: \<open>go_bound\<close> ends in
  BOUND or in SELECTING, and an ACK outside REQUESTING goes to \<open>go_bound\<close>.
\<close>

lemma go_bound_state:
  "m_state (go_bound P now st) = Bound \<or> m_state (go_bound P now st) = Selecting"
proof (cases "lease_time_s (m_info st) \<le> TicksToSec P (now - m_request_send_time st)")
  case True
  then show ?thesis by (simp add: go_bound_expired)
next
  case False
  then show ?thesis by (simp add: go_bound_not_expired go_bound_set_timer_fields)
qed

lemma go_bound_not_Checking: "m_state (go_bound P now st) \<noteq> Checking"
  using go_bound_state [of P now st] by auto

lemma process_ack_not_Checking:
  assumes "m_state st \<noteq> Requesting" and "m_state st \<noteq> Checking"
  shows "m_state (process_ack P now src_addr mac addr opts0 st) \<noteq> Checking"
proof (cases "checkAndFixupAck addr opts0")
  case (Pair ok opts)
  show ?thesis
  proof (cases ok)
    case False
    then show ?thesis using assms Pair by (simp add: process_ack_def)
  next
    case True
    then show ?thesis
      using assms Pair
      by (simp add: process_ack_def Let_def AIPSTACK_ASSERT_fields go_bound_not_Checking)
  qed
qed

lemma Checking_only_from_Requesting:
  assumes "m_state (processReceivedDhcpMessage P now src_addr mac msg st) = Checking"
  shows "m_state st = Requesting \<or> m_state st = Checking"
proof (rule ccontr)
  assume "\<not> (m_state st = Requesting \<or> m_state st = Checking)"
  then have n: "m_state st \<noteq> Requesting" "m_state st \<noteq> Checking" by simp_all
  have "m_state (processReceivedDhcpMessage P now src_addr mac msg st) \<noteq> Checking"
    using n process_ack_not_Checking [OF n, of P now src_addr mac "msg_DhcpYiaddr msg"]
    by (simp add: processReceivedDhcpMessage_def go_resetting_state process_offer_state
          split: option.split)
  with assms show False by simp
qed

text \<open>
  Claim C10, amended. An ACK that is received in REBOOTING and passes the checks of
  the header, of its options and of \<open>checkAndFixupAck\<close> never puts the client into
  CHECKING: no ARP query is sent and the ARP observer is not subscribed. If the seconds
  passed since the first request of REBOOTING are fewer than the lease time, the client
  becomes BOUND at once, configures the address and the gateway, and reports
  LeaseObtained (not LeaseRenewed) where a handler is installed. Otherwise the lease
  has already expired: the client starts discovery (SELECTING, a DISCOVER with a new
  XID), configures nothing and reports nothing.
\<close>

theorem ack_in_Rebooting:
  assumes st: "m_state st = Rebooting"
    and hdr: "DhcpHeaderSize \<le> msg_tot_len msg" "msg_hasHeader msg"
      "msg_DhcpOp msg = BootReply" "msg_DhcpHtype msg = DhcpHwAddrType_Ethernet"
      "msg_DhcpHlen msg = MacAddr_Size" "msg_DhcpXid msg = m_xid st"
      "msg_DhcpChaddr msg = iface_MacAddr P" "msg_DhcpMagic msg = DhcpMagic"
    and opts: "msg_parseOptions msg = Some opts0" "recv_have_dhcp_message_type opts0"
      "recv_dhcp_message_type opts0 = Ack" "recv_have_dhcp_server_identifier opts0"
    and acc: "checkAndFixupAck (msg_DhcpYiaddr msg) opts0 = (True, opts)"
  shows
   "m_state (processReceivedDhcpMessage P now src_addr rx_src_mac msg st) \<noteq> Checking \<and>
    m_arp_observer (processReceivedDhcpMessage P now src_addr rx_src_mac msg st)
      = m_arp_observer st \<and>
    (TicksToSec P (now - m_request_send_time st) < recv_ip_address_lease_time opts \<longrightarrow>
       m_state (processReceivedDhcpMessage P now src_addr rx_src_mac msg st) = Bound \<and>
       effects (processReceivedDhcpMessage P now src_addr rx_src_mac msg st) =
         effects st @
           [SetIp4Addr (Some (of_nat (countLeadingOnes (recv_subnet_mask opts)),
                              msg_DhcpYiaddr msg)),
            SetIp4Gateway (if recv_have_router opts then Some (recv_router opts) else None)]
           @ (if m_handler st then [Handler LeaseObtained] else [])) \<and>
    (recv_ip_address_lease_time opts \<le> TicksToSec P (now - m_request_send_time st) \<longrightarrow>
       m_state (processReceivedDhcpMessage P now src_addr rx_src_mac msg st) = Selecting \<and>
       (\<exists>m. effects (processReceivedDhcpMessage P now src_addr rx_src_mac msg st)
              = effects st @ [SendUdpIp4Packet m] \<and>
            sent_msg_type m = Discover \<and> sent_DhcpXid m = ucast now))"
proof -
  let ?st2 = "st\<lparr>m_info := update_lease_info (msg_DhcpYiaddr msg) src_addr rx_src_mac opts (m_info st)\<rparr>"
  let ?T = "TicksToSec P (now - m_request_send_time st)"
  have p: "processReceivedDhcpMessage P now src_addr rx_src_mac msg st = go_bound P now ?st2"
    using st hdr opts
    by (simp add: processReceivedDhcpMessage_def process_ack_Rebooting [OF st acc])
  have nl: "\<not> hasLease ?st2" using st by (simp add: hasLease_def)
  have l: "lease_time_s (m_info ?st2) = recv_ip_address_lease_time opts"
    by (simp add: update_lease_info_fields)
  have T: "TicksToSec P (now - m_request_send_time ?st2) = ?T" by simp
  show ?thesis
  proof (cases "recv_ip_address_lease_time opts \<le> ?T")
    case True
    then have e: "lease_time_s (m_info ?st2) \<le> TicksToSec P (now - m_request_send_time ?st2)"
      by (simp add: update_lease_info_fields)
    show ?thesis
      unfolding p go_bound_expired_eq [OF e]
      using True nl
        handle_expired_lease_no_lease(2) [of P now
          "(AIPSTACK_ASSERT (m_state ?st2 = Checking \<or> m_state ?st2 = Renewing \<or>
                          m_state ?st2 = Rebinding \<or> m_state ?st2 = Rebooting) ?st2)
           \<lparr>m_lease_time_passed := TicksToSec P (now - m_request_send_time ?st2)\<rparr>"]
      by (simp add: handle_expired_lease_state handle_expired_lease_no_lease(1)
            AIPSTACK_ASSERT_def)
  next
    case False
    then have e: "\<not> lease_time_s (m_info ?st2) \<le> TicksToSec P (now - m_request_send_time ?st2)"
      by (simp add: update_lease_info_fields)
    show ?thesis
      unfolding p
      using False nl
      by (simp add: go_bound_not_expired_fields [OF e] update_lease_info_fields)
  qed
qed

theorem ack_in_Rebooting_witness:
  "m_state example_rebooting = Rebooting \<and>
   msg_DhcpXid example_ack = m_xid example_rebooting \<and>
   msg_parseOptions example_ack = Some example_ack_options \<and>
   checkAndFixupAck (msg_DhcpYiaddr example_ack) example_ack_options
     = (True, example_ack_options_fixed) \<and>
   TicksToSec example_Params (6000 - m_request_send_time example_rebooting)
     < recv_ip_address_lease_time example_ack_options_fixed \<and>
   m_handler example_rebooting \<and>
   m_state (processReceivedDhcpMessage example_Params 6000 (Ip4Addr_of 192 0 2 1)
              0x02AAAAAAAAAA example_ack example_rebooting) = Bound \<and>
   effects (processReceivedDhcpMessage example_Params 6000 (Ip4Addr_of 192 0 2 1)
              0x02AAAAAAAAAA example_ack example_rebooting) =
     effects example_rebooting @
       [SetIp4Addr (Some (24, Ip4Addr_of 192 0 2 10)),
        SetIp4Gateway (Some (Ip4Addr_of 192 0 2 1)),
        Handler LeaseObtained]"
proof -
  have st: "m_state example_rebooting = Rebooting"
    by (simp add: example_rebooting_def example_init_reboot_def example_raw_def run_defs)
  have f: "m_xid example_rebooting = 5000" "m_request_send_time example_rebooting = 5000"
    "m_handler example_rebooting"
    by (simp_all add: example_rebooting_def example_init_reboot_def example_raw_def run_defs)
  have hdr: "DhcpHeaderSize \<le> msg_tot_len example_ack" "msg_hasHeader example_ack"
      "msg_DhcpOp example_ack = BootReply" "msg_DhcpHtype example_ack = DhcpHwAddrType_Ethernet"
      "msg_DhcpHlen example_ack = MacAddr_Size" "msg_DhcpXid example_ack = m_xid example_rebooting"
      "msg_DhcpChaddr example_ack = iface_MacAddr example_Params"
      "msg_DhcpMagic example_ack = DhcpMagic"
    by (simp_all add: f example_ack_def example_offer_def run_defs)
  have opts: "msg_parseOptions example_ack = Some example_ack_options"
      "recv_have_dhcp_message_type example_ack_options"
      "recv_dhcp_message_type example_ack_options = Ack"
      "recv_have_dhcp_server_identifier example_ack_options"
    by (simp_all add: example_ack_def example_offer_def example_ack_options_def)
  have y: "msg_DhcpYiaddr example_ack = Ip4Addr_of 192 0 2 10"
    "msg_DhcpXid example_ack = 5000"
    by (simp_all add: example_ack_def example_offer_def)
  have acc: "checkAndFixupAck (msg_DhcpYiaddr example_ack) example_ack_options
     = (True, example_ack_options_fixed)"
    unfolding y(1) by (rule example_ack_accepted)
  have t1: "TicksToSec example_Params 1000 = 1"
    "recv_ip_address_lease_time example_ack_options_fixed = 3600"
    by (simp_all add: TicksToSec_def example_Params_def example_ack_options_fixed_def
          example_ack_options_def)
  have t: "TicksToSec example_Params (6000 - m_request_send_time example_rebooting)
     < recv_ip_address_lease_time example_ack_options_fixed"
    by (simp add: f t1)
  have v: "recv_have_router example_ack_options_fixed"
    "recv_router example_ack_options_fixed = Ip4Addr_of 192 0 2 1"
    "(of_nat (countLeadingOnes (recv_subnet_mask example_ack_options_fixed)) :: u8) = 24"
    by (simp_all add: example_ack_options_fixed_def example_ack_options_def Ip4Addr_defs)
  show ?thesis
    using ack_in_Rebooting [OF st hdr opts acc, of 6000 "Ip4Addr_of 192 0 2 1" "0x02AAAAAAAAAA"]
      t st acc
    by (simp add: f opts v y t1)
qed

text \<open>
  Claim C10 as stated fails. The example client in REBOOTING sent its request at time
  5000; the ACK that grants the address for one second arrives a second later and is
  accepted by \<open>checkAndFixupAck\<close>; the lease has expired and the client goes to
  SELECTING, not to BOUND.
\<close>

theorem ack_in_Rebooting_expired:
  "m_state example_rebooting = Rebooting \<and>
   msg_DhcpXid example_ack_short = m_xid example_rebooting \<and>
   fst (checkAndFixupAck (msg_DhcpYiaddr example_ack_short)
          (example_ack_options\<lparr>recv_ip_address_lease_time := 1\<rparr>)) \<and>
   m_state (step example_Params
      (UdpIp4PacketReceived 6000 67 True (Ip4Addr_of 192 0 2 1) 0x02AAAAAAAAAA example_ack_short)
      example_rebooting) = Selecting \<and>
   m_state (step example_Params
      (UdpIp4PacketReceived 6000 67 True (Ip4Addr_of 192 0 2 1) 0x02AAAAAAAAAA example_ack_short)
      example_rebooting) \<noteq> Bound"
  by (simp add: eval_defs example_rebooting_def example_init_reboot_def example_ack_short_def)

end
